theory Spec2Isabelle
  imports Main
begin

section \<open>The data model of package lucenequery\<close>

text \<open>
  The grammar's actions build Go values of type \<open>interface{}\<close>. The values a term or a range
  bound can hold are: \<open>nil\<close>, an \<open>int\<close> (64 bit), a \<open>float64\<close>, a \<open>string\<close>, a \<open>bool\<close>,
  a \<open>WildCardQuery\<close> and a slice of such values.

  A \<open>float64\<close> is kept as the decimal literal it was read from (the text handed to
  \<open>strconv.ParseFloat\<close>); the rounding of the literal to a double is not modelled, so two
  different literals are two different values here even where Go rounds them to one double.
  No statement below compares floats read from different literals.
\<close>

record WildCardQuery =
  wc_Prefix :: string
  wc_Suffix :: string
  wc_Term :: string

datatype val =
    VNil
  | VInt int
  | VFloat string
  | VStr string
  | VBool bool
  | VWild WildCardQuery
  | VSlice "val list"

record RangeQuery =
  rq_Min :: val
  rq_Max :: val
  rq_Term :: string
  rq_Inclusive :: bool

record TermQuery =
  tq_Term :: string
  tq_Prefix :: string
  tq_Op :: string
  tq_Value :: val

text \<open>
  A node is what \<open>Parse\<close> returns and what \<open>renderSQL\<close> switches on: a \<open>TermQuery\<close>, a
  \<open>RangeQuery\<close>, a \<open>BooleanExpression\<close> (operator and arguments), a \<open>[]interface{}\<close> of nodes,
  a Go \<open>string\<close> (a query still to be parsed), or any other Go value (\<open>Other\<close>).
\<close>

datatype node =
    TermQ TermQuery
  | RangeQ RangeQuery
  | BoolQ string "node list"
  | ListQ "node list"
  | StrQ string
  | Other

subsection \<open>WildCardQuery.Kind, RangeQuery.HasMin, HasMax, Kind\<close>

definition wc_Kind :: "WildCardQuery \<Rightarrow> string" where
  "wc_Kind q =
     (if wc_Term q \<noteq> [] then ''any''
      else if wc_Prefix q \<noteq> [] \<and> wc_Suffix q \<noteq> [] then ''between''
      else if wc_Prefix q \<noteq> [] then ''prefix''
      else if wc_Suffix q \<noteq> [] then ''suffix''
      else ''wildcard'')"

text \<open>
  \<open>fmt.Sprintf("%v", x) != "*"\<close>: of the values above only the string \<open>*\<close> prints as \<open>*\<close>
  (an int prints as digits, a float with digits, a bool as true or false, a struct in braces,
  a slice in brackets).
\<close>

fun prints_star :: "val \<Rightarrow> bool" where
  "prints_star (VStr s) = (s = ''*'')"
| "prints_star _ = False"

definition HasMin :: "RangeQuery \<Rightarrow> bool" where
  "HasMin q = (rq_Min q \<noteq> VNil \<and> \<not> prints_star (rq_Min q))"

definition HasMax :: "RangeQuery \<Rightarrow> bool" where
  "HasMax q = (rq_Max q \<noteq> VNil \<and> \<not> prints_star (rq_Max q))"

definition rq_Kind :: "RangeQuery \<Rightarrow> string" where
  "rq_Kind q =
     (let mn = HasMin q; mx = HasMax q in
      if mn \<and> mx then ''between''
      else
        (let kind = (if mn \<and> \<not> mx then ''gt'' else if mx \<and> \<not> mn then ''lt'' else '''') in
         if rq_Inclusive q then kind @ ''e'' else kind))"

subsection \<open>TermQuery.Query and updateFieldName\<close>

definition tq_Query :: "TermQuery \<Rightarrow> node" where
  "tq_Query t =
     (if tq_Op t = ''gt'' then
        RangeQ \<lparr>rq_Min = tq_Value t, rq_Max = VStr ''*'', rq_Term = tq_Term t, rq_Inclusive = False\<rparr>
      else if tq_Op t = ''gte'' then
        RangeQ \<lparr>rq_Min = tq_Value t, rq_Max = VStr ''*'', rq_Term = tq_Term t, rq_Inclusive = True\<rparr>
      else if tq_Op t = ''lt'' then
        RangeQ \<lparr>rq_Min = VStr ''*'', rq_Max = tq_Value t, rq_Term = tq_Term t, rq_Inclusive = False\<rparr>
      else if tq_Op t = ''lte'' then
        RangeQ \<lparr>rq_Min = VStr ''*'', rq_Max = tq_Value t, rq_Term = tq_Term t, rq_Inclusive = True\<rparr>
      else TermQ t)"

text \<open>
  \<open>updateFieldName\<close>: a slice is mapped element by element, a \<open>TermQuery\<close> with an empty
  term gets the name, a \<open>BooleanExpression\<close> has its arguments mapped, and every other value
  (a \<open>RangeQuery\<close> among them) is returned as it is. The grammar's actions build
  \<open>BooleanExpression\<close> values only, so the \<open>*BooleanExpression\<close> case is never taken and is
  not modelled.
\<close>

fun updateFieldName :: "node \<Rightarrow> string \<Rightarrow> node" where
  "updateFieldName (ListQ list) name = ListQ (map (\<lambda>row. updateFieldName row name) list)"
| "updateFieldName (TermQ t) name = TermQ (if tq_Term t = [] then t\<lparr>tq_Term := name\<rparr> else t)"
| "updateFieldName (BoolQ op args) name = BoolQ op (map (\<lambda>row. updateFieldName row name) args)"
| "updateFieldName v name = v"

section \<open>Library functions the grammars' actions call\<close>

text \<open>
  Go strings are byte strings; a \<open>char\<close> is a byte. The grammars read UTF-8 runes, and their
  character classes tell ASCII characters apart only (an ill-formed byte is read as the
  rune \<open>U+FFFD\<close> of width 1, which is in none of the classes), so reading bytes and reading
  runes match the same texts.
\<close>

definition byte :: "char \<Rightarrow> nat" where
  "byte c = of_char c"

definition is_digit :: "char \<Rightarrow> bool" where
  "is_digit c = (48 \<le> byte c \<and> byte c \<le> 57)"

definition digit_val :: "char \<Rightarrow> nat" where
  "digit_val c = byte c - 48"

definition nat_of_digits :: "string \<Rightarrow> nat" where
  "nat_of_digits ds = foldl (\<lambda>acc c. 10 * acc + digit_val c) 0 ds"

text \<open>\<open>strings.Replace(s, " ", "", -1)\<close> and \<open>bytes.Replace(text, `\/`, `/`, -1)\<close>.\<close>

definition strip_spaces :: "string \<Rightarrow> string" where
  "strip_spaces s = filter (\<lambda>c. c \<noteq> CHR '' '') s"

fun replace_escaped_slash :: "string \<Rightarrow> string" where
  "replace_escaped_slash (a # b # cs) =
     (if a = CHR 0x5C \<and> b = CHR ''/'' then CHR ''/'' # replace_escaped_slash cs
      else a # replace_escaped_slash (b # cs))"
| "replace_escaped_slash cs = cs"

subsection \<open>strconv.Atoi on a text matched by \<open>'-'? [0-9]+\<close>\<close>

text \<open>
  Go's \<open>int\<close> has 64 bits on the platforms the repository is built for. Out of range,
  \<open>Atoi\<close> returns the nearest bound together with an error.
\<close>

definition Atoi :: "string \<Rightarrow> int \<times> bool" where
  "Atoi s =
     (let v = (case s of
                 [] \<Rightarrow> 0
               | c # r \<Rightarrow> if c = CHR ''-'' then - int (nat_of_digits r)
                          else int (nat_of_digits s)) in
      if v < - (2 ^ 63) then (- (2 ^ 63), False)
      else if 2 ^ 63 - 1 < v then (2 ^ 63 - 1, False)
      else (v, True))"

subsection \<open>strconv.ParseFloat on a text matched by \<open>'-'? [0-9]+ '.' [0-9]+\<close>\<close>

text \<open>
  The only error such a text can give is a range error: the literal rounds to infinity,
  that is, its magnitude is at least \<open>2^1024 - 2^970\<close>.
\<close>

definition ParseFloat_ok :: "string \<Rightarrow> bool" where
  "ParseFloat_ok s =
     (let t = (case s of [] \<Rightarrow> [] | c # r \<Rightarrow> if c = CHR ''-'' then r else s);
          ip = takeWhile is_digit t;
          fp = drop (Suc (length ip)) t in
      nat_of_digits (ip @ fp) < (2 ^ 1024 - 2 ^ 970) * 10 ^ length fp)"

subsection \<open>UTF-8\<close>

definition cont_byte :: "char \<Rightarrow> bool" where
  "cont_byte c = (128 \<le> byte c \<and> byte c \<le> 191)"

text \<open>
  The width of the well-formed UTF-8 encoding at the head of a byte string, and \<open>0\<close> when
  there is none (Go then reads the rune \<open>U+FFFD\<close> of width 1).
\<close>

fun utf8_width :: "string \<Rightarrow> nat" where
  "utf8_width [] = 0"
| "utf8_width (a # s) =
     (let x = byte a in
      if x < 128 then 1
      else if 194 \<le> x \<and> x \<le> 223 then
        (case s of b # _ \<Rightarrow> if cont_byte b then 2 else 0 | _ \<Rightarrow> 0)
      else if 224 \<le> x \<and> x \<le> 239 then
        (case s of
           b # c # _ \<Rightarrow>
             if (if x = 224 then 160 \<le> byte b \<and> byte b \<le> 191
                 else if x = 237 then 128 \<le> byte b \<and> byte b \<le> 159
                 else cont_byte b) \<and> cont_byte c
             then 3 else 0
         | _ \<Rightarrow> 0)
      else if 240 \<le> x \<and> x \<le> 244 then
        (case s of
           b # c # d # _ \<Rightarrow>
             if (if x = 240 then 144 \<le> byte b \<and> byte b \<le> 191
                 else if x = 244 then 128 \<le> byte b \<and> byte b \<le> 143
                 else cont_byte b) \<and> cont_byte c \<and> cont_byte d
             then 4 else 0
         | _ \<Rightarrow> 0)
      else 0)"

text \<open>
  A parser reads its input rune by rune and records the error \<open>invalid encoding\<close> for
  every ill-formed byte it comes to. \<open>ill_formed_upto n s\<close>: going through \<open>s\<close> rune by
  rune, an ill-formed byte is met at an offset of at most \<open>n\<close>.
\<close>

function ill_formed_upto :: "nat \<Rightarrow> string \<Rightarrow> bool" where
  "ill_formed_upto n [] = False"
| "ill_formed_upto n (c # cs) =
     (let w = utf8_width (c # cs) in
      if w = 0 then True
      else if n < w then False
      else ill_formed_upto (n - w) (drop (w - 1) cs))"
  by pat_completeness auto
termination
  by (relation "measure (\<lambda>(n, s). length s)") auto

definition replacement_char :: string where
  "replacement_char = [CHR 0xEF, CHR 0xBF, CHR 0xBD]"

text \<open>\<open>utf8.EncodeRune\<close>: a surrogate or a value above \<open>U+10FFFF\<close> is encoded as \<open>U+FFFD\<close>.\<close>

definition EncodeRune :: "nat \<Rightarrow> string" where
  "EncodeRune r =
     (if r < 128 then [char_of r]
      else if r < 2048 then [char_of (192 + r div 64), char_of (128 + r mod 64)]
      else if (55296 \<le> r \<and> r \<le> 57343) \<or> 1114111 < r then replacement_char
      else if r < 65536 then
        [char_of (224 + r div 4096), char_of (128 + (r div 64) mod 64), char_of (128 + r mod 64)]
      else
        [char_of (240 + r div 262144), char_of (128 + (r div 4096) mod 64),
         char_of (128 + (r div 64) mod 64), char_of (128 + r mod 64)])"

subsection \<open>strconv.Unquote on a double-quoted text\<close>

definition hex_val :: "char \<Rightarrow> nat option" where
  "hex_val c =
     (let x = byte c in
      if 48 \<le> x \<and> x \<le> 57 then Some (x - 48)
      else if 97 \<le> x \<and> x \<le> 102 then Some (x - 87)
      else if 65 \<le> x \<and> x \<le> 70 then Some (x - 55)
      else None)"

fun hex_number :: "nat \<Rightarrow> string \<Rightarrow> nat option" where
  "hex_number acc [] = Some acc"
| "hex_number acc (c # cs) =
     (case hex_val c of None \<Rightarrow> None | Some d \<Rightarrow> hex_number (16 * acc + d) cs)"

definition is_octal :: "char \<Rightarrow> bool" where
  "is_octal c = (48 \<le> byte c \<and> byte c \<le> 55)"

text \<open>
  \<open>simple_escape c\<close> is the byte a one-letter escape stands for, in a text quoted with \<open>"\<close>.
\<close>

definition simple_escape :: "char \<Rightarrow> char option" where
  "simple_escape c =
     (if c = CHR ''a'' then Some (CHR 0x07)
      else if c = CHR ''b'' then Some (CHR 0x08)
      else if c = CHR ''f'' then Some (CHR 0x0C)
      else if c = CHR ''n'' then Some (CHR 0x0A)
      else if c = CHR ''r'' then Some (CHR 0x0D)
      else if c = CHR ''t'' then Some (CHR 0x09)
      else if c = CHR ''v'' then Some (CHR 0x0B)
      else if c = CHR 0x5C then Some (CHR 0x5C)
      else if c = CHR 0x22 then Some (CHR 0x22)
      else None)"

text \<open>
  The loop of \<open>Unquote\<close> over the text between the quotes, one \<open>UnquoteChar\<close> a step;
  \<open>None\<close> is \<open>ErrSyntax\<close>.
\<close>

function unquote_body :: "string \<Rightarrow> string option" where
  "unquote_body [] = Some []"
| "unquote_body (c # s) =
     (if c = CHR 0x22 then None
      else if 128 \<le> byte c then
        (let w = utf8_width (c # s) in
         if w = 0 then map_option (\<lambda>t. replacement_char @ t) (unquote_body s)
         else map_option (\<lambda>t. take w (c # s) @ t) (unquote_body (drop (w - 1) s)))
      else if c \<noteq> CHR 0x5C then map_option (\<lambda>t. c # t) (unquote_body s)
      else
        (case s of
           [] \<Rightarrow> None
         | e # r \<Rightarrow>
             if e = CHR ''x'' then
               (if length r < 2 then None
                else case hex_number 0 (take 2 r) of
                       None \<Rightarrow> None
                     | Some v \<Rightarrow> map_option (\<lambda>t. char_of v # t) (unquote_body (drop 2 r)))
             else if e = CHR ''u'' then
               (if length r < 4 then None
                else case hex_number 0 (take 4 r) of
                       None \<Rightarrow> None
                     | Some v \<Rightarrow> map_option (\<lambda>t. EncodeRune v @ t) (unquote_body (drop 4 r)))
             else if e = CHR ''U'' then
               (if length r < 8 then None
                else case hex_number 0 (take 8 r) of
                       None \<Rightarrow> None
                     | Some v \<Rightarrow>
                         if 1114111 < v then None
                         else map_option (\<lambda>t. EncodeRune v @ t) (unquote_body (drop 8 r)))
             else if is_octal e then
               (if length r < 2 \<or> \<not> is_octal (r ! 0) \<or> \<not> is_octal (r ! 1) then None
                else
                  (let v = 64 * (byte e - 48) + 8 * (byte (r ! 0) - 48) + (byte (r ! 1) - 48) in
                   if 255 < v then None
                   else map_option (\<lambda>t. char_of v # t) (unquote_body (drop 2 r))))
             else
               (case simple_escape e of
                  None \<Rightarrow> None
                | Some b \<Rightarrow> map_option (\<lambda>t. b # t) (unquote_body r))))"
  by pat_completeness auto
termination
  by (relation "measure length") auto

definition Unquote :: "string \<Rightarrow> string option" where
  "Unquote s =
     (if length s < 2 then None
      else if hd s \<noteq> CHR 0x22 \<or> last s \<noteq> CHR 0x22 then None
      else
        (let b = butlast (tl s) in
         if CHR 0x0A \<in> set b then None else unquote_body b))"

section \<open>The Lucene grammar\<close>

text \<open>
  The grammar is a parsing expression grammar: a sequence matches its parts one after the
  other and gives up the whole on the first part that does not match, a choice takes the
  first alternative that matches, a repetition takes as many as match, and \<open>e?\<close> always
  matches. An action runs as soon as its expression has matched. An error an action
  returns does not undo the match: it is recorded, stays recorded when the parser
  backtracks, and makes \<open>Parse\<close> return an error at the end.

  A rule applied to the rest of the input gives a \<open>pres\<close>: no match, or a value with the
  input left, each with the errors recorded on the way. The rules that call each other
  recursively take a bound on the depth of these calls, and give \<open>OutOfFuel\<close> when it is
  used up. The errors are listed as often as they were recorded; the parser reports an
  error once for each position of the input it was recorded at.
\<close>

datatype perr =
    ErrNoMatch
  | ErrInvalidQuery
  | ErrAtoi
  | ErrParseFloat
  | ErrUnquote
  | ErrInvalidEncoding
  | ErrUndefinedRule

datatype 'a pres =
    OutOfFuel
  | NoMatch "perr list"
  | Match 'a string "perr list"

fun add_errs :: "perr list \<Rightarrow> 'a pres \<Rightarrow> 'a pres" where
  "add_errs es OutOfFuel = OutOfFuel"
| "add_errs es (NoMatch es') = NoMatch (es @ es')"
| "add_errs es (Match a r es') = Match a r (es @ es')"

text \<open>
  Sequence (\<open>seq\<close>: the rest of a sequence, applied to the value and to the input left),
  ordered choice (\<open>orelse\<close>) and \<open>e?\<close> (\<open>optional\<close>, given the input to go on from when
  \<open>e\<close> did not match).
\<close>

definition seq :: "'a pres \<Rightarrow> ('a \<Rightarrow> string \<Rightarrow> 'b pres) \<Rightarrow> 'b pres" where
  "seq p f =
     (case p of
        OutOfFuel \<Rightarrow> OutOfFuel
      | NoMatch es \<Rightarrow> NoMatch es
      | Match a r es \<Rightarrow> add_errs es (f a r))"

definition orelse :: "'a pres \<Rightarrow> 'a pres \<Rightarrow> 'a pres" where
  "orelse p q =
     (case p of
        OutOfFuel \<Rightarrow> OutOfFuel
      | NoMatch es \<Rightarrow> add_errs es q
      | Match a r es \<Rightarrow> Match a r es)"

definition optional :: "'a pres \<Rightarrow> string \<Rightarrow> 'a option pres" where
  "optional p s =
     (case p of
        OutOfFuel \<Rightarrow> OutOfFuel
      | NoMatch es \<Rightarrow> Match None s es
      | Match a r es \<Rightarrow> Match (Some a) r es)"

definition of_opt :: "('a \<times> string) option \<Rightarrow> 'a pres" where
  "of_opt x = (case x of None \<Rightarrow> NoMatch [] | Some (a, r) \<Rightarrow> Match a r [])"

definition of_lit :: "string option \<Rightarrow> unit pres" where
  "of_lit x = (case x of None \<Rightarrow> NoMatch [] | Some r \<Rightarrow> Match () r [])"

definition toIfaceStr :: "string option \<Rightarrow> string" where
  "toIfaceStr v = (case v of None \<Rightarrow> [] | Some s \<Rightarrow> s)"

subsection \<open>Literals and white space\<close>

fun lit :: "string \<Rightarrow> string \<Rightarrow> string option" where
  "lit [] s = Some s"
| "lit (p # ps) [] = None"
| "lit (p # ps) (c # cs) = (if p = c then lit ps cs else None)"

text \<open>An ordered choice of literals, each with the value its action returns.\<close>

fun choice_lit :: "(string \<times> 'a) list \<Rightarrow> string \<Rightarrow> ('a \<times> string) option" where
  "choice_lit [] s = None"
| "choice_lit ((p, v) # alts) s =
     (case lit p s of Some r \<Rightarrow> Some (v, r) | None \<Rightarrow> choice_lit alts s)"

definition is_ws :: "char \<Rightarrow> bool" where
  "is_ws c = (c = CHR '' '' \<or> c = CHR 0x09 \<or> c = CHR 0x0D \<or> c = CHR 0x0A)"

text \<open>\<open>_*\<close> and \<open>_+\<close>, where \<open>_\<close> is \<open>[ \t\r\n]+\<close>.\<close>

definition skip_ws :: "string \<Rightarrow> string" where
  "skip_ws s = dropWhile is_ws s"

definition ws1 :: "string \<Rightarrow> string option" where
  "ws1 s = (case s of [] \<Rightarrow> None | c # r \<Rightarrow> if is_ws c then Some (skip_ws r) else None)"

subsection \<open>Operators\<close>

definition Operator :: "string \<Rightarrow> (string \<times> string) option" where
  "Operator =
     choice_lit [(''OR'', ''OR''), (''AND'', ''AND''), (''NOT'', ''NOT''), (''||'', ''OR''),
       (''&&'', ''AND''), (''and'', ''AND''), (''or'', ''OR''), (''not'', ''NOT'')]"

definition OperatorExp :: "string \<Rightarrow> (string \<times> string) option" where
  "OperatorExp s =
     (case Operator (skip_ws s) of
        None \<Rightarrow> None
      | Some (operator, r) \<Rightarrow>
          (case ws1 r of
             Some r' \<Rightarrow> Some (operator, r')
           | None \<Rightarrow> if r = [] then Some (operator, r) else None))"

definition Equality :: "string \<Rightarrow> (string \<times> string) option" where
  "Equality =
     choice_lit [(''>='', ''gte''), (''>'', ''gt''), (''<='', ''lte''), (''<'', ''lt''),
       (''!='', ''neq''), (''!~*'', ''!~*''), (''!~'', ''!~''), (''~*'', ''~*''), (''~'', ''~''),
       (''gte'', ''gte''), (''gt'', ''gt''), (''lte'', ''lte''), (''lt'', ''lt''),
       (''eq'', ''eq''), (''neq'', ''neq'')]"

definition EqualityExpr :: "string \<Rightarrow> (string \<times> string) option" where
  "EqualityExpr s =
     (case Equality (skip_ws s) of
        None \<Rightarrow> None
      | Some (eq, r) \<Rightarrow> Some (eq, skip_ws r))"

definition PrefixOperatorExp :: "string \<Rightarrow> (string \<times> string) option" where
  "PrefixOperatorExp s =
     (case skip_ws s of
        [] \<Rightarrow> None
      | c # r \<Rightarrow> if c = CHR ''+'' \<or> c = CHR ''-'' then Some ([c], r) else None)"

subsection \<open>Terms and scalars\<close>

definition TermChar :: "char \<Rightarrow> bool" where
  "TermChar c =
     (c = CHR ''.'' \<or>
      c \<notin> set [CHR '':'', CHR '' '', CHR 0x09, CHR 0x0D, CHR 0x0A, CHR '')'', CHR ''('',
                 CHR ''{'', CHR ''}'', CHR 0x22, CHR ''^'', CHR ''~'', CHR 0x5C, CHR ''['',
                 CHR '']'', CHR ''*'', CHR ''+'', CHR ''-''])"

definition UnquotedTerm :: "string \<Rightarrow> (string \<times> string) option" where
  "UnquotedTerm s =
     (let t = takeWhile TermChar s in
      if t = [] then None else Some (t, dropWhile TermChar s))"

definition EscapedChar :: "char \<Rightarrow> bool" where
  "EscapedChar c = (byte c \<le> 31 \<or> c = CHR 0x22 \<or> c = CHR 0x5C)"

definition EscapeSequence :: "char \<Rightarrow> bool" where
  "EscapeSequence c =
     (c \<in> set [CHR 0x22, CHR 0x5C, CHR ''/'', CHR ''b'', CHR ''f'', CHR ''n'', CHR ''r'',
                CHR ''t'', CHR ''u''])"

text \<open>\<open>(!EscapedChar . / '\\' EscapeSequence)*\<close>: the text matched and the input left.\<close>

fun quoted_chars :: "string \<Rightarrow> string \<times> string" where
  "quoted_chars [] = ([], [])"
| "quoted_chars (c # cs) =
     (if \<not> EscapedChar c then
        (case quoted_chars cs of (b, r) \<Rightarrow> (c # b, r))
      else if c = CHR 0x5C then
        (case cs of
           [] \<Rightarrow> ([], c # cs)
         | d # ds \<Rightarrow>
             if EscapeSequence d then (case quoted_chars ds of (b, r) \<Rightarrow> (c # d # b, r))
             else ([], c # cs))
      else ([], c # cs))"

definition QuotedTerm :: "string \<Rightarrow> string pres" where
  "QuotedTerm s =
     (case s of
        [] \<Rightarrow> NoMatch []
      | q # cs \<Rightarrow>
          if q \<noteq> CHR 0x22 then NoMatch []
          else
            (case quoted_chars cs of
               (b, r) \<Rightarrow>
                 (case r of
                    [] \<Rightarrow> NoMatch []
                  | q' # r' \<Rightarrow>
                      if q' \<noteq> CHR 0x22 then NoMatch []
                      else
                        (case Unquote (replace_escaped_slash (q # b @ [q'])) of
                           Some v \<Rightarrow> Match v r' []
                         | None \<Rightarrow> Match [] r' [ErrUnquote]))))"

text \<open>\<open>UnquotedTerm / QuotedTerm\<close>\<close>

definition UQTerm :: "string \<Rightarrow> string pres" where
  "UQTerm s =
     (case UnquotedTerm s of
        Some (t, r) \<Rightarrow> Match t r []
      | None \<Rightarrow> QuotedTerm s)"

definition IntExp :: "string \<Rightarrow> val pres" where
  "IntExp s =
     (let r = (case lit ''-'' s of Some r \<Rightarrow> r | None \<Rightarrow> s);
          ds = takeWhile is_digit r in
      if ds = [] then NoMatch []
      else
        (let rest = dropWhile is_digit r;
             text = take (length s - length rest) s in
         case Atoi text of (v, ok) \<Rightarrow> Match (VInt v) rest (if ok then [] else [ErrAtoi])))"

definition DecimalExp :: "string \<Rightarrow> val pres" where
  "DecimalExp s =
     (let r = (case lit ''-'' s of Some r \<Rightarrow> r | None \<Rightarrow> s);
          ip = takeWhile is_digit r in
      if ip = [] then NoMatch []
      else
        (case lit ''.'' (dropWhile is_digit r) of
           None \<Rightarrow> NoMatch []
         | Some r2 \<Rightarrow>
             (let fp = takeWhile is_digit r2 in
              if fp = [] then NoMatch []
              else
                (let rest = dropWhile is_digit r2;
                     text = take (length s - length rest) s in
                 Match (VFloat text) rest (if ParseFloat_ok text then [] else [ErrParseFloat])))))"

definition DecimalOrIntExp :: "string \<Rightarrow> val pres" where
  "DecimalOrIntExp s =
     (case DecimalExp s of
        NoMatch es \<Rightarrow> add_errs es (IntExp s)
      | m \<Rightarrow> m)"

definition BoolExp :: "string \<Rightarrow> (val \<times> string) option" where
  "BoolExp = choice_lit [(''true'', VBool True), (''false'', VBool False)]"

definition Null :: "string \<Rightarrow> (val \<times> string) option" where
  "Null = choice_lit [(''null'', VNil)]"

text \<open>The rule \<open>WildCard\<close>: the character \<open>*\<close>.\<close>

definition WildCardChar :: "string \<Rightarrow> string option" where
  "WildCardChar = lit ''*''"

subsection \<open>Wildcard expressions, terms, arrays, ranges, field names\<close>

definition WildCardExp :: "string \<Rightarrow> val pres" where
  "WildCardExp s =
     orelse
       (seq (UQTerm s) (\<lambda>prefix r. seq (of_lit (WildCardChar r)) (\<lambda>_ r. seq (UQTerm r) (\<lambda>suffix r.
          Match (VWild \<lparr>wc_Prefix = prefix, wc_Suffix = suffix, wc_Term = []\<rparr>) r []))))
    (orelse
       (seq (UQTerm s) (\<lambda>term r. seq (of_lit (WildCardChar r)) (\<lambda>_ r.
          Match (VWild \<lparr>wc_Prefix = term, wc_Suffix = [], wc_Term = []\<rparr>) r [])))
    (orelse
       (seq (of_lit (WildCardChar s)) (\<lambda>_ r. seq (UQTerm r) (\<lambda>term r. seq (of_lit (WildCardChar r)) (\<lambda>_ r.
          Match (VWild \<lparr>wc_Prefix = [], wc_Suffix = [], wc_Term = term\<rparr>) r []))))
    (orelse
       (seq (of_lit (WildCardChar s)) (\<lambda>_ r. seq (UQTerm r) (\<lambda>term r.
          Match (VWild \<lparr>wc_Prefix = [], wc_Suffix = term, wc_Term = []\<rparr>) r [])))
       (seq (of_lit (WildCardChar s)) (\<lambda>_ r.
          Match (VWild \<lparr>wc_Prefix = [], wc_Suffix = [], wc_Term = []\<rparr>) r [])))))"

text \<open>The rule \<open>Term\<close>; the term's field is set by \<open>FieldExp\<close>.\<close>

definition Term :: "string \<Rightarrow> TermQuery pres" where
  "Term s =
     orelse
       (seq (optional (of_opt (EqualityExpr s)) s) (\<lambda>eq r. seq (DecimalOrIntExp r) (\<lambda>term r.
          Match \<lparr>tq_Term = [], tq_Prefix = [], tq_Op = toIfaceStr eq, tq_Value = term\<rparr>
            (skip_ws r) [])))
       (seq (optional (of_opt (EqualityExpr s)) s) (\<lambda>eq r.
        seq (optional (of_opt (PrefixOperatorExp r)) r) (\<lambda>op r.
        seq (orelse (of_opt (Null r)) (orelse (of_opt (BoolExp r)) (orelse (DecimalOrIntExp r)
               (orelse (WildCardExp r) (orelse (map_pres VStr (QuotedTerm r))
                  (map_pres VStr (of_opt (UnquotedTerm r)))))))) (\<lambda>term r.
          Match \<lparr>tq_Term = [], tq_Prefix = toIfaceStr op, tq_Op = toIfaceStr eq, tq_Value = term\<rparr>
            (skip_ws r) []))))"

definition ArrayValue :: "string \<Rightarrow> val pres" where
  "ArrayValue s =
     seq (orelse (of_opt (Null s)) (orelse (of_opt (BoolExp s)) (orelse (DecimalOrIntExp s)
            (orelse (map_pres VStr (QuotedTerm s)) (map_pres VStr (of_opt (UnquotedTerm s)))))))
       (\<lambda>val r. Match val (skip_ws r) [])"

text \<open>The bound of a range: \<open>DecimalOrIntExp / WildCard / UnquotedTerm / QuotedTerm\<close>.\<close>

definition RangeBound :: "string \<Rightarrow> val pres" where
  "RangeBound s =
     orelse (DecimalOrIntExp s)
       (orelse (seq (of_lit (WildCardChar s)) (\<lambda>_ r. Match (VStr ''*'') r []))
          (orelse (map_pres VStr (of_opt (UnquotedTerm s))) (map_pres VStr (QuotedTerm s))))"

definition RangeOperatorExp :: "string \<Rightarrow> RangeQuery pres" where
  "RangeOperatorExp s =
     orelse
       (seq (of_lit (lit ''['' s)) (\<lambda>_ r. seq (RangeBound (skip_ws r)) (\<lambda>termMin r.
        seq (of_lit (lit ''TO'' (skip_ws r))) (\<lambda>_ r. seq (of_lit (ws1 r)) (\<lambda>_ r.
        seq (RangeBound r) (\<lambda>termMax r. seq (of_lit (lit '']'' r)) (\<lambda>_ r.
          Match \<lparr>rq_Min = termMin, rq_Max = termMax, rq_Term = [], rq_Inclusive = True\<rparr> r [])))))))
       (seq (of_lit (lit ''{'' s)) (\<lambda>_ r. seq (RangeBound r) (\<lambda>termMin r.
        seq (of_lit (lit ''TO'' (skip_ws r))) (\<lambda>_ r. seq (of_lit (ws1 r)) (\<lambda>_ r.
        seq (RangeBound r) (\<lambda>termMax r. seq (of_lit (lit ''}'' r)) (\<lambda>_ r.
          Match \<lparr>rq_Min = termMin, rq_Max = termMax, rq_Term = [], rq_Inclusive = False\<rparr> r [])))))))"

definition Fieldname :: "string \<Rightarrow> string pres" where
  "Fieldname s =
     seq (UQTerm s) (\<lambda>fieldname r. seq (of_lit (lit '':'' r)) (\<lambda>_ r. Match fieldname r []))"

subsection \<open>Every rule that matches leaves a suffix of its input\<close>

definition leaves_le :: "nat \<Rightarrow> 'a pres \<Rightarrow> bool" where
  "leaves_le n p = (case p of Match a r es \<Rightarrow> length r \<le> n | _ \<Rightarrow> True)"

definition leaves_lt :: "nat \<Rightarrow> 'a pres \<Rightarrow> bool" where
  "leaves_lt n p = (case p of Match a r es \<Rightarrow> length r < n | _ \<Rightarrow> True)"

lemma leaves_lt_le: "leaves_lt n p \<Longrightarrow> leaves_le n p"
  by (cases p) (simp_all add: leaves_lt_def leaves_le_def)

lemma leaves_le_mono: "leaves_le n p \<Longrightarrow> n \<le> m \<Longrightarrow> leaves_le m p"
  by (cases p) (simp_all add: leaves_le_def)

lemma leaves_lt_mono: "leaves_lt n p \<Longrightarrow> n \<le> m \<Longrightarrow> leaves_lt m p"
  by (cases p) (simp_all add: leaves_lt_def)

lemma leaves_le_add_errs: "leaves_le n (add_errs es p) = leaves_le n p"
  by (cases p) (simp_all add: leaves_le_def)

lemma leaves_lt_add_errs: "leaves_lt n (add_errs es p) = leaves_lt n p"
  by (cases p) (simp_all add: leaves_lt_def)

lemma leaves_le_seq:
  assumes "leaves_le n p" and "\<And>a r. length r \<le> n \<Longrightarrow> leaves_le n (f a r)"
  shows "leaves_le n (seq p f)"
proof (cases p)
  case (Match a r es)
  with assms(1) have "length r \<le> n" by (simp add: leaves_le_def)
  with assms(2) [of r a] Match show ?thesis by (simp add: seq_def leaves_le_add_errs)
qed (simp_all add: seq_def leaves_le_def)

lemma leaves_lt_seq1:
  assumes "leaves_lt n p" and "\<And>a r. length r < n \<Longrightarrow> leaves_le (length r) (f a r)"
  shows "leaves_lt n (seq p f)"
proof (cases p)
  case (Match a r es)
  with assms(1) have "length r < n" by (simp add: leaves_lt_def)
  with assms(2) [of r a] have "leaves_le (length r) (f a r)" by simp
  with \<open>length r < n\<close> have "leaves_lt n (f a r)"
    by (cases "f a r") (simp_all add: leaves_le_def leaves_lt_def)
  with Match show ?thesis by (simp add: seq_def leaves_lt_add_errs)
qed (simp_all add: seq_def leaves_lt_def)

lemma leaves_lt_seq2:
  assumes "leaves_le n p" and "\<And>a r. length r \<le> n \<Longrightarrow> leaves_lt (length r) (f a r)"
  shows "leaves_lt n (seq p f)"
proof (cases p)
  case (Match a r es)
  with assms(1) have "length r \<le> n" by (simp add: leaves_le_def)
  with assms(2) [of r a] have "leaves_lt (length r) (f a r)" by simp
  with \<open>length r \<le> n\<close> have "leaves_lt n (f a r)"
    by (cases "f a r") (simp_all add: leaves_lt_def)
  with Match show ?thesis by (simp add: seq_def leaves_lt_add_errs)
qed (simp_all add: seq_def leaves_lt_def)

lemma leaves_le_orelse: "leaves_le n p \<Longrightarrow> leaves_le n q \<Longrightarrow> leaves_le n (orelse p q)"
  by (cases p) (simp_all add: orelse_def leaves_le_add_errs)

lemma leaves_lt_orelse: "leaves_lt n p \<Longrightarrow> leaves_lt n q \<Longrightarrow> leaves_lt n (orelse p q)"
  by (cases p) (simp_all add: orelse_def leaves_lt_add_errs)

lemma leaves_le_optional: "leaves_le (length s) p \<Longrightarrow> leaves_le (length s) (optional p s)"
  by (cases p) (simp_all add: optional_def leaves_le_def)

lemma leaves_lt_map: "leaves_lt n (map_pres f p) = leaves_lt n p"
  by (cases p) (simp_all add: leaves_lt_def)

lemma leaves_le_Match: "leaves_le n (Match a r es) = (length r \<le> n)"
  by (simp add: leaves_le_def)

lemma leaves_lt_Match: "leaves_lt n (Match a r es) = (length r < n)"
  by (simp add: leaves_lt_def)

lemma lit_length: "lit p s = Some r \<Longrightarrow> length r + length p = length s"
  by (induction p s rule: lit.induct) (auto split: if_splits)

lemma lit_append: "lit p s = Some r \<Longrightarrow> s = p @ r"
  by (induction p s rule: lit.induct) (auto split: if_splits)

lemma choice_lit_length:
  "choice_lit alts s = Some (v, r) \<Longrightarrow> \<forall>(p, v) \<in> set alts. p \<noteq> [] \<Longrightarrow> length r < length s"
proof (induction alts)
  case Nil
  then show ?case by simp
next
  case (Cons a alts)
  obtain p w where a: "a = (p, w)" by (cases a)
  show ?case
  proof (cases "lit p s")
    case None
    with Cons a show ?thesis by simp
  next
    case (Some r')
    with Cons.prems a have "r' = r" and "p \<noteq> []" by auto
    with lit_length [OF Some] show ?thesis by (cases p) auto
  qed
qed

lemma skip_ws_length: "length (skip_ws s) \<le> length s"
  by (simp add: skip_ws_def length_dropWhile_le)

lemma ws1_length: "ws1 s = Some r \<Longrightarrow> length r < length s"
  using skip_ws_length by (auto simp: ws1_def split: list.splits if_splits simp: less_Suc_eq_le)

lemma leaves_lt_of_lit_lit:
  assumes "p \<noteq> []"
  shows "leaves_lt (length s) (of_lit (lit p s))"
proof (cases "lit p s")
  case None
  then show ?thesis by (simp add: of_lit_def leaves_lt_def)
next
  case (Some r)
  from lit_length [OF Some] assms have "length r < length s" by (cases p) auto
  with Some show ?thesis by (simp add: of_lit_def leaves_lt_def)
qed

lemma leaves_lt_WildCardChar: "leaves_lt (length s) (of_lit (WildCardChar s))"
  by (simp add: WildCardChar_def leaves_lt_of_lit_lit)

lemma leaves_lt_ws1: "leaves_lt (length s) (of_lit (ws1 s))"
  by (cases "ws1 s") (auto simp: of_lit_def leaves_lt_def dest: ws1_length)

lemma leaves_lt_UnquotedTerm: "leaves_lt (length s) (of_opt (UnquotedTerm s))"
proof (cases s)
  case Nil
  then show ?thesis by (simp add: UnquotedTerm_def of_opt_def leaves_lt_def)
next
  case (Cons c cs)
  have "length (dropWhile TermChar cs) \<le> length cs" by (rule length_dropWhile_le)
  with Cons show ?thesis
    by (auto simp: UnquotedTerm_def of_opt_def leaves_lt_def Let_def)
qed

lemma quoted_chars_length: "quoted_chars cs = (b, r) \<Longrightarrow> length r \<le> length cs"
  by (induction cs arbitrary: b r rule: quoted_chars.induct)
     (auto split: if_splits prod.splits list.splits, fastforce+)

lemma leaves_lt_QuotedTerm: "leaves_lt (length s) (QuotedTerm s)"
  by (auto simp: QuotedTerm_def leaves_lt_def split: list.splits prod.splits option.splits
      dest: quoted_chars_length)

lemma leaves_lt_UQTerm: "leaves_lt (length s) (UQTerm s)"
  using leaves_lt_UnquotedTerm [of s] leaves_lt_QuotedTerm [of s]
  by (auto simp: UQTerm_def of_opt_def split: option.splits)

lemma lit_minus_length: "length (case lit ''-'' s of Some r \<Rightarrow> r | None \<Rightarrow> s) \<le> length s"
  by (auto split: option.splits dest: lit_length)

lemma takeWhile_dropWhile_length:
  "takeWhile P r \<noteq> [] \<Longrightarrow> length (dropWhile P r) < length r"
  by (cases r) (auto simp: less_Suc_eq_le length_dropWhile_le split: if_splits)

lemma leaves_lt_IntExp: "leaves_lt (length s) (IntExp s)"
  using lit_minus_length [of s]
    takeWhile_dropWhile_length [of is_digit "case lit ''-'' s of Some r \<Rightarrow> r | None \<Rightarrow> s"]
  by (auto simp: IntExp_def Let_def leaves_lt_def split: prod.splits)

lemma leaves_lt_DecimalExp: "leaves_lt (length s) (DecimalExp s)"
proof -
  let ?r = "case lit ''-'' s of Some r \<Rightarrow> r | None \<Rightarrow> s"
  have "length r2 < length s" if "lit ''.'' (dropWhile is_digit ?r) = Some r2" for r2
    using lit_length [OF that] length_dropWhile_le [of is_digit ?r] lit_minus_length [of s]
    by simp
  moreover have "length (dropWhile is_digit r2) \<le> length r2" for r2
    by (rule length_dropWhile_le)
  ultimately have "length (dropWhile is_digit r2) < length s"
    if "lit ''.'' (dropWhile is_digit ?r) = Some r2" for r2
    using that by (meson le_less_trans)
  then show ?thesis
    by (auto simp: DecimalExp_def Let_def leaves_lt_def split: option.splits)
qed

lemma leaves_lt_DecimalOrIntExp: "leaves_lt (length s) (DecimalOrIntExp s)"
  using leaves_lt_DecimalExp [of s] leaves_lt_IntExp [of s]
  by (cases "DecimalExp s") (simp_all add: DecimalOrIntExp_def leaves_lt_add_errs)

lemma leaves_lt_of_opt_choice_lit:
  "\<forall>(p, v) \<in> set alts. p \<noteq> [] \<Longrightarrow> leaves_lt (length s) (of_opt (choice_lit alts s))"
  by (cases "choice_lit alts s") (auto simp: of_opt_def leaves_lt_def dest: choice_lit_length)

lemma leaves_lt_Null: "leaves_lt (length s) (of_opt (Null s))"
  unfolding Null_def by (rule leaves_lt_of_opt_choice_lit) simp

lemma leaves_lt_BoolExp: "leaves_lt (length s) (of_opt (BoolExp s))"
  unfolding BoolExp_def by (rule leaves_lt_of_opt_choice_lit) simp

lemma leaves_lt_ArrayValue: "leaves_lt (length s) (ArrayValue s)"
  unfolding ArrayValue_def
  by (intro leaves_lt_seq1 leaves_lt_orelse leaves_lt_Null leaves_lt_BoolExp
      leaves_lt_DecimalOrIntExp leaves_lt_UnquotedTerm leaves_lt_QuotedTerm
      leaves_lt_map [THEN iffD2])
     (simp add: leaves_le_Match skip_ws_length)

subsection \<open>Arrays\<close>

text \<open>\<open>(',' _* ArrayValue)*\<close>, giving the values.\<close>

function ArrayRest :: "string \<Rightarrow> val list pres" where
  "ArrayRest s =
     (case lit '','' s of
        None \<Rightarrow> Match [] s []
      | Some r \<Rightarrow>
          (case ArrayValue (skip_ws r) of
             OutOfFuel \<Rightarrow> OutOfFuel
           | NoMatch es \<Rightarrow> Match [] s es
           | Match v r2 es \<Rightarrow>
               add_errs es (seq (ArrayRest r2) (\<lambda>vs r3. Match (v # vs) r3 []))))"
  by pat_completeness auto
termination
proof (relation "measure length")
  fix s r v r2 es
  assume "lit '','' s = Some r" and m: "ArrayValue (skip_ws r) = Match v r2 es"
  then have "length r < length s" by (auto dest: lit_length)
  moreover have "length r2 < length (skip_ws r)"
    using leaves_lt_ArrayValue [of "skip_ws r"] m by (simp add: leaves_lt_def)
  ultimately show "(r2, s) \<in> measure length"
    using skip_ws_length [of r] by simp
qed simp

definition ArrayExp :: "string \<Rightarrow> val list pres" where
  "ArrayExp s =
     seq (of_lit (lit ''['' s)) (\<lambda>_ r.
     seq (optional (seq (ArrayValue (skip_ws r)) (\<lambda>v r. seq (ArrayRest r) (\<lambda>vs r.
            Match (v # vs) r []))) (skip_ws r)) (\<lambda>vals r.
     seq (of_lit (lit '']'' (skip_ws r))) (\<lambda>_ r.
       Match (case vals of None \<Rightarrow> [] | Some vs \<Rightarrow> vs) r [])))"

subsection \<open>Nodes\<close>

text \<open>\<open>toFlatSlice\<close>, and the way \<open>Node\<close> joins its arguments: a slice gives its elements.\<close>

definition toFlatSlice :: "node list \<Rightarrow> node" where
  "toFlatSlice arr = (case arr of [x] \<Rightarrow> x | _ \<Rightarrow> ListQ arr)"

definition flat_args :: "node \<Rightarrow> node list" where
  "flat_args v = (case v of ListQ l \<Rightarrow> l | _ \<Rightarrow> [v])"

definition eof :: "string \<Rightarrow> unit pres" where
  "eof s = (if s = [] then Match () s [] else NoMatch [])"

text \<open>
  The action of \<open>FieldExp\<close> for \<open>Fieldname _* ParenExp\<close>: a single \<open>TermQuery\<close> gets the
  field and is converted by \<open>Query\<close>; anything else goes through \<open>updateFieldName\<close>.
\<close>

definition FieldExp_group :: "string \<Rightarrow> node \<Rightarrow> node" where
  "FieldExp_group field node =
     (case node of
        TermQ n \<Rightarrow> tq_Query (n\<lparr>tq_Term := field\<rparr>)
      | _ \<Rightarrow> updateFieldName node field)"

text \<open>
  The rules \<open>Node\<close>, \<open>Node+\<close>, \<open>Node*\<close> (the rest of a \<open>Node+\<close>), \<open>GroupExp\<close>, \<open>ParenExp\<close>
  and \<open>FieldExp\<close>. Every call among them takes one unit of fuel.
\<close>

fun Node :: "nat \<Rightarrow> string \<Rightarrow> node pres"
  and NodePlus :: "nat \<Rightarrow> string \<Rightarrow> node list pres"
  and NodeStar :: "nat \<Rightarrow> string \<Rightarrow> node list pres"
  and GroupExp :: "nat \<Rightarrow> string \<Rightarrow> node pres"
  and ParenExp :: "nat \<Rightarrow> string \<Rightarrow> node pres"
  and FieldExp :: "nat \<Rightarrow> string \<Rightarrow> node pres"
where
  "Node 0 s = OutOfFuel"
| "Node (Suc n) s =
     orelse
       (seq (of_opt (OperatorExp s)) (\<lambda>operator r. seq (eof r) (\<lambda>_ r.
          Match (BoolQ operator []) r [])))
    (orelse
       (seq (of_opt (OperatorExp s)) (\<lambda>operator r. seq (Node n r) (\<lambda>right r.
          Match right r [])))
    (orelse
       (seq (GroupExp n s) (\<lambda>left r. seq (optional (of_opt (OperatorExp r)) r) (\<lambda>op r.
        seq (NodePlus n r) (\<lambda>right r.
          Match (BoolQ (if toIfaceStr op = [] then ''IMPLICIT'' else toIfaceStr op)
                   (flat_args left @ concat (map flat_args right))) r []))))
       (GroupExp n s)))"
| "NodePlus 0 s = OutOfFuel"
| "NodePlus (Suc n) s =
     seq (Node n s) (\<lambda>v r. seq (NodeStar n r) (\<lambda>vs r. Match (v # vs) r []))"
| "NodeStar 0 s = OutOfFuel"
| "NodeStar (Suc n) s =
     (case Node n s of
        OutOfFuel \<Rightarrow> OutOfFuel
      | NoMatch es \<Rightarrow> Match [] s es
      | Match v r es \<Rightarrow> add_errs es (seq (NodeStar n r) (\<lambda>vs r. Match (v # vs) r [])))"
| "GroupExp 0 s = OutOfFuel"
| "GroupExp (Suc n) s =
     orelse (seq (FieldExp n s) (\<lambda>exp r. Match exp (skip_ws r) [])) (ParenExp n s)"
| "ParenExp 0 s = OutOfFuel"
| "ParenExp (Suc n) s =
     seq (of_lit (lit ''('' s)) (\<lambda>_ r. seq (NodePlus n r) (\<lambda>node r.
     seq (of_lit (lit '')'' r)) (\<lambda>_ r.
       Match (case node of [x] \<Rightarrow> x | _ \<Rightarrow> ListQ node) (skip_ws r) [])))"
| "FieldExp 0 s = OutOfFuel"
| "FieldExp (Suc n) s =
     orelse
       (seq (optional (Fieldname s) s) (\<lambda>fieldname r. seq (ArrayExp (skip_ws r)) (\<lambda>arr r.
          Match (TermQ \<lparr>tq_Term = toIfaceStr fieldname, tq_Prefix = [], tq_Op = ''in'',
                         tq_Value = VSlice arr\<rparr>) r [])))
    (orelse
       (seq (optional (Fieldname s) s) (\<lambda>fieldname r.
        seq (RangeOperatorExp (skip_ws r)) (\<lambda>rangeValue r.
          Match (RangeQ (rangeValue\<lparr>rq_Term := toIfaceStr fieldname\<rparr>)) r [])))
    (orelse
       (seq (Fieldname s) (\<lambda>field r. seq (ParenExp n (skip_ws r)) (\<lambda>node r.
          Match (FieldExp_group field node) r [])))
       (seq (optional (Fieldname s) s) (\<lambda>fieldname r. seq (Term (skip_ws r)) (\<lambda>t r.
          Match (tq_Query (t\<lparr>tq_Term := toIfaceStr fieldname\<rparr>)) r [])))))"

text \<open>
  The depth of the calls is at most five for each character read, so this much fuel does
  for an input of the given length.
\<close>

fun fuel :: "string \<Rightarrow> nat" where
  "fuel [] = Suc (Suc (Suc (Suc (Suc (Suc 0)))))"
| "fuel (c # cs) = Suc (Suc (Suc (Suc (Suc (fuel cs)))))"

datatype parse_error = ParseOutOfFuel | ParseErrors "perr list"

text \<open>
  The rule \<open>Start\<close> and the entry point \<open>Parse\<close>: \<open>_* Node+\<close> gives the nodes (or the only
  one); otherwise \<open>_*\<close> matches and its action returns the error \<open>invalid query\<close>. \<open>Parse\<close>
  returns an error as soon as one was recorded.

  The grammar does not ask for the end of the input, so \<open>Parse\<close> can return a node and leave
  input unread. The parser has read the input it matched and the rune after it, and
  records \<open>invalid encoding\<close> when a byte there is ill-formed. While trying rules that did
  not match it may have read further; ill-formed bytes that far are not accounted for here.
\<close>

definition Start :: "nat \<Rightarrow> string \<Rightarrow> node option pres" where
  "Start n s =
     orelse
       (seq (NodePlus n (skip_ws s)) (\<lambda>node r. Match (Some (toFlatSlice node)) r []))
       (Match None (skip_ws s) [ErrInvalidQuery])"

definition Parse :: "string \<Rightarrow> parse_error + node" where
  "Parse s =
     (case Start (fuel s) s of
        OutOfFuel \<Rightarrow> Inl ParseOutOfFuel
      | NoMatch es \<Rightarrow> Inl (ParseErrors (es @ [ErrNoMatch]))
      | Match v r es \<Rightarrow>
          if ill_formed_upto (length s - length r) s
          then Inl (ParseErrors (ErrInvalidEncoding # es))
          else
            (case v of
               Some x \<Rightarrow> if es = [] then Inr x else Inl (ParseErrors es)
             | None \<Rightarrow> Inl (ParseErrors es)))"

section \<open>Package sql: strings and regular expressions\<close>

subsection \<open>strings.TrimSpace\<close>

text \<open>
  The UTF-8 encodings of Unicode's white space: the ASCII characters tab, line feed,
  vertical tab, form feed, carriage return and space, then \<open>U+0085\<close>, \<open>U+00A0\<close>, \<open>U+1680\<close>,
  \<open>U+2000\<close> to \<open>U+200A\<close>, \<open>U+2028\<close>, \<open>U+2029\<close>, \<open>U+202F\<close>, \<open>U+205F\<close> and \<open>U+3000\<close>.
\<close>

definition space_runes :: "string list" where
  "space_runes =
     [[CHR 0x09], [CHR 0x0A], [CHR 0x0B], [CHR 0x0C], [CHR 0x0D], [CHR 0x20],
      [CHR 0xC2, CHR 0x85], [CHR 0xC2, CHR 0xA0], [CHR 0xE1, CHR 0x9A, CHR 0x80],
      [CHR 0xE2, CHR 0x80, CHR 0x80], [CHR 0xE2, CHR 0x80, CHR 0x81],
      [CHR 0xE2, CHR 0x80, CHR 0x82], [CHR 0xE2, CHR 0x80, CHR 0x83],
      [CHR 0xE2, CHR 0x80, CHR 0x84], [CHR 0xE2, CHR 0x80, CHR 0x85],
      [CHR 0xE2, CHR 0x80, CHR 0x86], [CHR 0xE2, CHR 0x80, CHR 0x87],
      [CHR 0xE2, CHR 0x80, CHR 0x88], [CHR 0xE2, CHR 0x80, CHR 0x89],
      [CHR 0xE2, CHR 0x80, CHR 0x8A], [CHR 0xE2, CHR 0x80, CHR 0xA8],
      [CHR 0xE2, CHR 0x80, CHR 0xA9], [CHR 0xE2, CHR 0x80, CHR 0xAF],
      [CHR 0xE2, CHR 0x81, CHR 0x9F], [CHR 0xE3, CHR 0x80, CHR 0x80]]"

text \<open>The input left after the first of the given texts that the input starts with.\<close>

fun strip_one :: "string list \<Rightarrow> string \<Rightarrow> string option" where
  "strip_one [] s = None"
| "strip_one (p # ps) s = (case lit p s of Some r \<Rightarrow> Some r | None \<Rightarrow> strip_one ps s)"

lemma strip_one_length:
  "strip_one ps s = Some r \<Longrightarrow> [] \<notin> set ps \<Longrightarrow> length r < length s"
proof (induction ps)
  case Nil
  then show ?case by simp
next
  case (Cons p ps)
  show ?case
  proof (cases "lit p s")
    case None
    with Cons show ?thesis by simp
  next
    case (Some r')
    with Cons.prems have "r' = r" and "p \<noteq> []" by auto
    with lit_length [OF Some] show ?thesis by (cases p) auto
  qed
qed

function trim_left :: "string list \<Rightarrow> string \<Rightarrow> string" where
  "trim_left ps s =
     (if [] \<in> set ps then s
      else case strip_one ps s of None \<Rightarrow> s | Some r \<Rightarrow> trim_left ps r)"
  by pat_completeness auto
termination
  by (relation "measure (\<lambda>(ps, s). length s)") (auto dest: strip_one_length)

definition TrimSpace :: "string \<Rightarrow> string" where
  "TrimSpace s = rev (trim_left (map rev space_runes) (rev (trim_left space_runes s)))"

subsection \<open>Regular expressions\<close>

text \<open>
  The patterns of the package are sequences of these items: an ordered choice of literal
  texts, a greedy repetition of a character class with a least count, one rune other than
  a line feed (\<open>.\<close>), and the end of the text (\<open>$\<close>). A match gives the text each item
  matched, and the text left. Go's matcher prefers what a backtracking matcher finds first:
  an earlier alternative, a longer repetition.

  The classes used are \<open>\s\<close>, \<open>[^()]\<close> and \<open>[^"]\<close>; what follows a repetition always starts
  with an ASCII character or is \<open>$\<close>, so giving back a repetition byte by byte matches
  what giving it back rune by rune matches.
\<close>

datatype item =
    Alt "string list"
  | Rep "char \<Rightarrow> bool" nat
  | AnyRune
  | Eol

fun first_some :: "('a \<Rightarrow> 'b option) \<Rightarrow> 'a list \<Rightarrow> 'b option" where
  "first_some f [] = None"
| "first_some f (x # xs) = (case f x of Some y \<Rightarrow> Some y | None \<Rightarrow> first_some f xs)"

fun rmatch :: "item list \<Rightarrow> string \<Rightarrow> (string list \<times> string) option" where
  "rmatch [] s = Some ([], s)"
| "rmatch (Alt ps # its) s =
     first_some
       (\<lambda>p. case lit p s of
               None \<Rightarrow> None
             | Some r \<Rightarrow> map_option (\<lambda>(segs, rest). (p # segs, rest)) (rmatch its r))
       ps"
| "rmatch (Rep cls n # its) s =
     first_some
       (\<lambda>k. map_option (\<lambda>(segs, rest). (take k s # segs, rest)) (rmatch its (drop k s)))
       (rev [n ..< Suc (length (takeWhile cls s))])"
| "rmatch (AnyRune # its) s =
     (case s of
        [] \<Rightarrow> None
      | c # cs \<Rightarrow>
          if c = CHR 0x0A then None
          else
            (let w = (if utf8_width s = 0 then 1 else utf8_width s) in
             map_option (\<lambda>(segs, rest). (take w s # segs, rest)) (rmatch its (drop w s))))"
| "rmatch (Eol # its) s =
     (if s = [] then map_option (\<lambda>(segs, rest). ([] # segs, rest)) (rmatch its s) else None)"

text \<open>
  \<open>ReplaceAllString\<close> for a pattern anchored with \<open>^\<close> (only a match at the start of the
  text is replaced) and for one that is not (the matches are found from left to right,
  none overlapping the one before). \<open>tpl\<close> gives the replacement from the texts matched.
  None of the patterns below matches the empty text.
\<close>

definition replace_anchored :: "item list \<Rightarrow> (string list \<Rightarrow> string) \<Rightarrow> string \<Rightarrow> string" where
  "replace_anchored its tpl s =
     (case rmatch its s of None \<Rightarrow> s | Some (segs, rest) \<Rightarrow> tpl segs @ rest)"

function replace_all :: "item list \<Rightarrow> (string list \<Rightarrow> string) \<Rightarrow> string \<Rightarrow> string" where
  "replace_all its tpl [] = []"
| "replace_all its tpl (c # cs) =
     (case rmatch its (c # cs) of
        None \<Rightarrow> c # replace_all its tpl cs
      | Some (segs, rest) \<Rightarrow>
          if length rest \<le> length cs then tpl segs @ replace_all its tpl rest
          else c # replace_all its tpl cs)"
  by pat_completeness auto
termination
  by (relation "measure (\<lambda>(its, tpl, s). length s)") auto

definition re_space :: "char \<Rightarrow> bool" where
  "re_space c = (c = CHR 0x09 \<or> c = CHR 0x0A \<or> c = CHR 0x0C \<or> c = CHR 0x0D \<or> c = CHR '' '')"

definition not_paren :: "char \<Rightarrow> bool" where
  "not_paren c = (c \<noteq> CHR ''('' \<and> c \<noteq> CHR '')'')"

definition not_quote :: "char \<Rightarrow> bool" where
  "not_quote c = (c \<noteq> CHR 0x22)"

text \<open>
  The three rewrites of \<open>regexes\<close>:
  \<^verbatim>\<open>^\s*(AND|OR)\s+([^()]+)(AND|OR)\<close> to \<open>$2$1\<close>,
  \<^verbatim>\<open>^\s*(AND|OR)\s*([^()]+)$\<close> to \<open>$2\<close>, and
  \<^verbatim>\<open>("[^"]+").""\<close> to \<open>$1\<close>.
\<close>

definition regex1 :: "string \<Rightarrow> string" where
  "regex1 =
     replace_anchored
       [Rep re_space 0, Alt [''AND'', ''OR''], Rep re_space 1, Rep not_paren 1, Alt [''AND'', ''OR'']]
       (\<lambda>segs. segs ! 3 @ segs ! 1)"

definition regex2 :: "string \<Rightarrow> string" where
  "regex2 =
     replace_anchored
       [Rep re_space 0, Alt [''AND'', ''OR''], Rep re_space 0, Rep not_paren 1, Eol]
       (\<lambda>segs. segs ! 3)"

definition regex3 :: "string \<Rightarrow> string" where
  "regex3 =
     replace_all
       [Alt [[CHR 0x22]], Rep not_quote 1, Alt [[CHR 0x22]], AnyRune, Alt [[CHR 0x22, CHR 0x22]]]
       (\<lambda>segs. segs ! 0 @ segs ! 1 @ segs ! 2)"

definition cleanExpr :: "string \<Rightarrow> string" where
  "cleanExpr expr = TrimSpace (regex3 (regex2 (regex1 expr)))"

text \<open>\<open>regexp.MatchString(`^\s*(AND|OR|NOT)`, s)\<close>\<close>

definition starts_with_operator :: "string \<Rightarrow> bool" where
  "starts_with_operator s = (rmatch [Rep re_space 0, Alt [''AND'', ''OR'', ''NOT'']] s \<noteq> None)"

section \<open>Package sql: the renderer\<close>

definition PlaceHolder :: string where
  "PlaceHolder = ''?''"

definition operatorMappings :: "(string \<times> string) list" where
  "operatorMappings =
     [(''eq'', ''=''), (''gt'', ''>''), (''gte'', ''>=''), (''lt'', ''<''), (''lte'', ''<=''),
      (''neq'', ''<>''), (''~'', ''~''), (''~*'', ''~*''), (''!~'', ''!~''), (''!~*'', ''!~*''),
      (''in'', ''IN''), (''between'', ''BETWEEN''), (''IMPLICIT'', ''OR''), (''AND'', ''AND''),
      (''OR'', ''OR''), (''NOT'', ''NOT'')]"

record Fragment =
  fr_Column :: string
  fr_Term :: string
  fr_Query :: string
  fr_Args :: "val list"

text \<open>\<open>SearchMode\<close> is an \<open>int32\<close>; \<open>SearchModeAny\<close> is 0 and \<open>SearchModeAll\<close> is 1.\<close>

definition SearchModeAny :: int where
  "SearchModeAny = 0"

definition SearchModeAll :: int where
  "SearchModeAll = 1"

text \<open>
  \<open>ToSQLOptions\<close>. A handler that is \<open>nil\<close> is \<open>None\<close>. A column handler returns a fragment
  or an error (its message).
\<close>

record ToSQLOptions =
  DefaultField :: string
  SearchMode :: int
  InHandler :: "(val \<Rightarrow> val) option"
  ColumnHandler :: "(node \<Rightarrow> string + Fragment) option"

record Query =
  q_Query :: string
  q_Args :: "val list"
  q_Columns :: "string list"

datatype error =
    ErrParse parse_error
  | ErrInvalidColumn string string
  | ErrInvalidTerm val
  | ErrInvalidRangeTerm RangeQuery
  | ErrUnknownRangeType string
  | ErrUnknownType
  | PanicNilHandler

text \<open>
  \<open>cache\<close> in \<open>renderSQL\<close> is a map that is read and never written. \<open>add_columns\<close> is the
  loop that appends to \<open>query.Columns\<close> the columns of a rendered part that are not in the
  cache.
\<close>

definition cache :: "string \<rightharpoonup> string" where
  "cache = Map.empty"

definition add_columns :: "string list \<Rightarrow> string list \<Rightarrow> string list" where
  "add_columns cols ts = foldl (\<lambda>acc t. if cache t = None then acc @ [t] else acc) cols ts"

text \<open>The default column handler that \<open>ToSQL\<close> installs.\<close>

definition default_handler :: "node \<Rightarrow> string + Fragment" where
  "default_handler field =
     (case field of
        RangeQ f \<Rightarrow> Inr \<lparr>fr_Column = rq_Term f, fr_Term = rq_Term f, fr_Query = [], fr_Args = []\<rparr>
      | TermQ f \<Rightarrow> Inr \<lparr>fr_Column = tq_Term f, fr_Term = tq_Term f, fr_Query = [], fr_Args = []\<rparr>
      | _ \<Rightarrow> Inl ''unknonw type'')"

text \<open>The operator a \<open>BooleanExpression\<close> joins its arguments with.\<close>

definition bool_op :: "string \<Rightarrow> ToSQLOptions \<Rightarrow> string" where
  "bool_op vop opt =
     (let op = (case map_of operatorMappings vop of None \<Rightarrow> [] | Some m \<Rightarrow> m);
          op = (if vop = ''IMPLICIT'' \<and> SearchMode opt = SearchModeAll then ''AND'' else op);
          op = (if op = [] then ''OR'' else op) in
      if op = ''NOT'' then (if SearchMode opt = SearchModeAny then ''OR NOT'' else ''AND NOT'')
      else op)"

definition quote :: string where
  "quote = [CHR 0x27]"

text \<open>
  The \<open>TermQuery\<close> case of \<open>renderSQL\<close>, in two parts. \<open>renderTerm\<close> is the case up to the
  point where the term is known: it calls the column handler, records the column, returns
  the handler's own query if it gave one, and falls back on the default field.
  \<open>termSQL\<close> is the rest of the case, which assigns \<open>query.Query\<close> and \<open>query.Args\<close> and
  nothing else: it gives the two values the case returns in them.
\<close>

definition termSQL :: "string \<Rightarrow> TermQuery \<Rightarrow> ToSQLOptions \<Rightarrow> string \<times> val list" where
  "termSQL term v opt =
     (let op = (if tq_Op v \<noteq> []
                then (case map_of operatorMappings (tq_Op v) of Some m \<Rightarrow> m | None \<Rightarrow> ''='')
                else ''='');
          sql = term @ '' '' @ op @ '' '' @ PlaceHolder;
          args = [tq_Value v] in
      if tq_Value v = VNil then
        (if tq_Prefix v = ''-'' then term @ '' IS NOT NULL'' else term @ '' IS NULL'', [])
      else
        (let (op, sql, args) =
               (case tq_Value v of
                  VWild t \<Rightarrow>
                    (''LIKE'',
                     if wc_Kind t = ''prefix'' then
                       (term @ '' LIKE '' @ quote @ PlaceHolder @ ''%'' @ quote,
                        [VStr (wc_Prefix t)])
                     else if wc_Kind t = ''suffix'' then
                       (term @ '' LIKE '' @ quote @ ''%'' @ PlaceHolder @ quote,
                        [VStr (wc_Suffix t)])
                     else if wc_Kind t = ''between'' then
                       (term @ '' LIKE '' @ quote @ PlaceHolder @ ''%'' @ PlaceHolder @ quote,
                        [VStr (wc_Prefix t), VStr (wc_Suffix t)])
                     else if wc_Kind t = ''any'' then
                       (term @ '' LIKE '' @ quote @ ''%'' @ PlaceHolder @ ''%'' @ quote,
                        [VStr (wc_Term t)])
                     else (term @ '' IS NOT NULL'', []))
                | _ \<Rightarrow> (op, sql, args));
             (sql, args) =
               (if op = ''IN'' then
                  (let sql = term @ '' '' @ op @ '' ('' @ PlaceHolder @ '')'';
                       args = (case InHandler opt of
                                 Some h \<Rightarrow> args[0 := h (tq_Value v)]
                               | None \<Rightarrow> args) in
                   case tq_Value v of
                     VSlice t \<Rightarrow> if length t = 0 then (''1 = 0'', []) else (sql, args)
                   | _ \<Rightarrow> (sql, args))
                else (sql, args));
             sql =
               (if tq_Prefix v = ''+'' then '' AND '' @ sql
                else if tq_Prefix v = ''-'' then
                  (if SearchMode opt = SearchModeAny then '' OR NOT '' @ sql
                   else '' AND NOT '' @ sql)
                else sql) in
         (sql, args)))"

definition renderTerm :: "TermQuery \<Rightarrow> ToSQLOptions \<Rightarrow> Query \<times> error option" where
  "renderTerm v opt =
     (let query = \<lparr>q_Query = [], q_Args = [], q_Columns = []\<rparr> in
      case ColumnHandler opt of
        None \<Rightarrow> (query, Some PanicNilHandler)
      | Some handler \<Rightarrow>
      (case handler (TermQ v) of
        Inl err \<Rightarrow> (query, Some (ErrInvalidColumn (tq_Term v) err))
      | Inr fragment \<Rightarrow>
      (let query = (if fr_Column fragment \<noteq> []
                    then query\<lparr>q_Columns := q_Columns query @ [fr_Column fragment]\<rparr>
                    else query) in
       if fr_Query fragment \<noteq> [] then
         (query\<lparr>q_Query := fr_Query fragment, q_Args := fr_Args fragment\<rparr>, None)
       else if fr_Term fragment = [] \<and> DefaultField opt = [] then
         (query, Some (ErrInvalidTerm (tq_Value v)))
       else
         (let term = (if fr_Term fragment = [] then DefaultField opt else fr_Term fragment) in
          case termSQL term v opt of
            (sql, args) \<Rightarrow> (query\<lparr>q_Query := sql, q_Args := args\<rparr>, None)))))"

text \<open>
  The \<open>RangeQuery\<close> case of \<open>renderSQL\<close>, in the same two parts; \<open>rangeSQL\<close> is the \<open>switch\<close>
  on the kind, and gives \<open>None\<close> where the case returns \<open>unknown range type\<close>.
\<close>

definition rangeSQL :: "string \<Rightarrow> RangeQuery \<Rightarrow> string \<Rightarrow> (string \<times> val list) option" where
  "rangeSQL term v op =
     (let mapped = (case map_of operatorMappings op of None \<Rightarrow> [] | Some m \<Rightarrow> m) in
      if op = ''gt'' \<or> op = ''gte'' then
        Some (term @ '' '' @ mapped @ '' '' @ PlaceHolder, [rq_Min v])
      else if op = ''lt'' \<or> op = ''lte'' then
        Some (term @ '' '' @ mapped @ '' '' @ PlaceHolder, [rq_Max v])
      else if op = ''between'' then
        (if rq_Inclusive v then
           Some (term @ '' '' @ mapped @ '' '' @ PlaceHolder @ '' and '' @ PlaceHolder,
                 [rq_Min v, rq_Max v])
         else
           Some (term @ '' > '' @ PlaceHolder @ '' and '' @ term @ '' < '' @ PlaceHolder,
                 [rq_Min v, rq_Max v]))
      else None)"

definition renderRange :: "RangeQuery \<Rightarrow> ToSQLOptions \<Rightarrow> Query \<times> error option" where
  "renderRange v opt =
     (let query = \<lparr>q_Query = [], q_Args = [], q_Columns = []\<rparr>;
          op = rq_Kind v in
      case ColumnHandler opt of
        None \<Rightarrow> (query, Some PanicNilHandler)
      | Some handler \<Rightarrow>
      (case handler (RangeQ v) of
        Inl err \<Rightarrow> (query, Some (ErrInvalidColumn (rq_Term v) err))
      | Inr fragment \<Rightarrow>
      (let query = (if fr_Column fragment \<noteq> []
                    then query\<lparr>q_Columns := q_Columns query @ [fr_Column fragment]\<rparr>
                    else query) in
       if fr_Query fragment \<noteq> [] then
         (query\<lparr>q_Query := fr_Query fragment, q_Args := fr_Args fragment\<rparr>, None)
       else if fr_Term fragment = [] \<and> DefaultField opt = [] then
         (query, Some (ErrInvalidRangeTerm v))
       else
         (let term = (if fr_Term fragment = [] then DefaultField opt else fr_Term fragment) in
          case rangeSQL term v op of
            Some (sql, args) \<Rightarrow> (query\<lparr>q_Query := sql, q_Args := args\<rparr>, None)
          | None \<Rightarrow> (query, Some (ErrUnknownRangeType op))))))"

subsection \<open>What \<open>Parse\<close> returns holds no Go string as a node\<close>

fun nstr :: "node \<Rightarrow> nat" where
  "nstr (StrQ s) = 1"
| "nstr (BoolQ op args) = sum_list (map nstr args)"
| "nstr (ListQ l) = sum_list (map nstr l)"
| "nstr _ = 0"

definition pres_all :: "('a \<Rightarrow> bool) \<Rightarrow> 'a pres \<Rightarrow> bool" where
  "pres_all P p = (case p of Match a r es \<Rightarrow> P a | _ \<Rightarrow> True)"

lemma pres_all_Match: "pres_all P (Match a r es) = P a"
  by (simp add: pres_all_def)

lemma pres_all_add_errs: "pres_all P (add_errs es p) = pres_all P p"
  by (cases p) (simp_all add: pres_all_def)

lemma pres_all_seq:
  assumes "\<And>a r. pres_all Q (f a r)"
  shows "pres_all Q (seq p f)"
  using assms by (cases p) (simp_all add: seq_def pres_all_add_errs, simp_all add: pres_all_def)

lemma pres_all_seq2:
  assumes "pres_all P p" and "\<And>a r. P a \<Longrightarrow> pres_all Q (f a r)"
  shows "pres_all Q (seq p f)"
proof (cases p)
  case (Match a r es)
  with assms(1) have "P a" by (simp add: pres_all_def)
  with assms(2) Match show ?thesis by (simp add: seq_def pres_all_add_errs)
qed (simp_all add: seq_def pres_all_def)

lemma pres_all_orelse:
  "pres_all P p \<Longrightarrow> pres_all P q \<Longrightarrow> pres_all P (orelse p q)"
  by (cases p) (simp_all add: orelse_def pres_all_add_errs)

lemma nstr_tq_Query: "nstr (tq_Query t) = 0"
  by (simp add: tq_Query_def)

lemma nstr_updateFieldName: "nstr (updateFieldName v name) = nstr v"
  by (induction v name rule: updateFieldName.induct) (simp_all add: comp_def cong: map_cong)

lemma nstr_flat_args: "sum_list (map nstr (flat_args v)) = nstr v"
  by (cases v) (simp_all add: flat_args_def)

lemma nstr_concat_flat_args:
  "sum_list (map nstr (concat (map flat_args vs))) = sum_list (map nstr vs)"
  by (induction vs) (simp_all add: nstr_flat_args)

lemma nstr_unwrap: "nstr (case node of [x] \<Rightarrow> x | _ \<Rightarrow> ListQ node) = sum_list (map nstr node)"
  by (cases node rule: list.exhaust) (simp_all split: list.splits)

lemma nstr_field_paren: "nstr (FieldExp_group field node) = nstr node"
  by (cases node)
     (simp_all add: FieldExp_group_def nstr_tq_Query nstr_updateFieldName
        del: updateFieldName.simps)

definition no_str :: "node \<Rightarrow> bool" where
  "no_str v = (nstr v = 0)"

definition no_strs :: "node list \<Rightarrow> bool" where
  "no_strs vs = (sum_list (map nstr vs) = 0)"

lemma rules_no_str:
  "pres_all no_str (Node n s) \<and> pres_all no_strs (NodePlus n s) \<and> pres_all no_strs (NodeStar n s)
   \<and> pres_all no_str (GroupExp n s) \<and> pres_all no_str (ParenExp n s)
   \<and> pres_all no_str (FieldExp n s)"
proof (induction n arbitrary: s)
  case 0
  show ?case by (simp add: pres_all_def)
next
  case (Suc n)
  have node: "pres_all no_str (Node n s)" and plus: "pres_all no_strs (NodePlus n s)"
    and star: "pres_all no_strs (NodeStar n s)" and grp: "pres_all no_str (GroupExp n s)"
    and paren: "pres_all no_str (ParenExp n s)" and field: "pres_all no_str (FieldExp n s)" for s
    using Suc [of s] by simp_all
  have 1: "pres_all no_str (Node (Suc n) s)"
    unfolding Node.simps
    apply (intro pres_all_orelse grp)
      apply (rule pres_all_seq, rule pres_all_seq, simp add: pres_all_Match no_str_def)
     apply (rule pres_all_seq, rule pres_all_seq2 [OF node], simp add: pres_all_Match)
    apply (rule pres_all_seq2 [OF grp], rule pres_all_seq, rule pres_all_seq2 [OF plus])
    apply (simp add: pres_all_Match no_str_def no_strs_def nstr_flat_args nstr_concat_flat_args)
    done
  have 2: "pres_all no_strs (NodePlus (Suc n) s)"
    unfolding NodePlus.simps
    apply (rule pres_all_seq2 [OF node], rule pres_all_seq2 [OF star])
    apply (simp add: pres_all_Match no_str_def no_strs_def)
    done
  have 3: "pres_all no_strs (NodeStar (Suc n) s)"
  proof (cases "Node n s")
    case (Match v r es)
    with node [of s] have "no_str v" by (simp add: pres_all_def)
    then have "pres_all no_strs (seq (NodeStar n r) (\<lambda>vs r. Match (v # vs) r []))"
      by (intro pres_all_seq2 [OF star]) (simp add: pres_all_Match no_str_def no_strs_def)
    with Match show ?thesis by (simp add: pres_all_add_errs)
  qed (simp_all add: pres_all_def no_strs_def)
  have 4: "pres_all no_str (GroupExp (Suc n) s)"
    unfolding GroupExp.simps
    by (intro pres_all_orelse paren, rule pres_all_seq2 [OF field]) (simp add: pres_all_Match)
  have 5: "pres_all no_str (ParenExp (Suc n) s)"
    unfolding ParenExp.simps
    apply (rule pres_all_seq, rule pres_all_seq2 [OF plus], rule pres_all_seq)
    apply (simp add: pres_all_Match no_str_def no_strs_def nstr_unwrap)
    done
  have 6: "pres_all no_str (FieldExp (Suc n) s)"
    unfolding FieldExp.simps
    apply (intro pres_all_orelse)
       apply (rule pres_all_seq, rule pres_all_seq, simp add: pres_all_Match no_str_def)
      apply (rule pres_all_seq, rule pres_all_seq, simp add: pres_all_Match no_str_def)
     apply (rule pres_all_seq, rule pres_all_seq2 [OF paren])
     apply (simp add: pres_all_Match no_str_def nstr_field_paren)
    apply (rule pres_all_seq, rule pres_all_seq, simp add: pres_all_Match no_str_def nstr_tq_Query)
    done
  from 1 2 3 4 5 6 show ?case by simp
qed

lemma Parse_no_str: "Parse s = Inr dsl \<Longrightarrow> nstr dsl = 0"
proof -
  assume p: "Parse s = Inr dsl"
  have "pres_all no_strs (NodePlus (fuel s) (skip_ws s))"
    using rules_no_str by blast
  then have "pres_all (\<lambda>v. case v of Some x \<Rightarrow> no_str x | None \<Rightarrow> True) (Start (fuel s) s)"
    unfolding Start_def
    apply (intro pres_all_orelse)
     apply (erule pres_all_seq2)
     apply (simp add: pres_all_Match no_str_def no_strs_def toFlatSlice_def split: list.splits)
    apply (simp add: pres_all_Match)
    done
  with p show ?thesis
    by (auto simp: Parse_def pres_all_def no_str_def split: pres.splits option.splits if_splits)
qed

subsection \<open>renderSQL and ToSQL\<close>

definition empty_query :: Query where
  "empty_query = \<lparr>q_Query = [], q_Args = [], q_Columns = []\<rparr>"

text \<open>
  \<open>renderSQL\<close> returns the query and the error (\<open>None\<close> is \<open>nil\<close>). \<open>renderList\<close> is the loop
  of the \<open>[]interface{}\<close> case and \<open>renderArgs\<close> the loop of the \<open>BooleanExpression\<close> case,
  over the arguments left, with the index \<open>i\<close> and the query built so far.
\<close>

function renderSQL :: "node \<Rightarrow> ToSQLOptions \<Rightarrow> Query \<times> error option"
  and renderList :: "node list \<Rightarrow> ToSQLOptions \<Rightarrow> Query \<Rightarrow> Query \<times> error option"
  and renderArgs ::
    "string \<Rightarrow> nat \<Rightarrow> nat \<Rightarrow> node list \<Rightarrow> ToSQLOptions \<Rightarrow> Query \<Rightarrow> Query \<times> error option"
where
  "renderSQL (ListQ v) opt = renderList v opt empty_query"
| "renderSQL (StrQ v) opt =
     (case Parse v of
        Inl err \<Rightarrow> (empty_query, Some (ErrParse err))
      | Inr dsl \<Rightarrow> renderSQL dsl opt)"
| "renderSQL (BoolQ vop args) opt = renderArgs vop (length args) 0 args opt empty_query"
| "renderSQL (TermQ v) opt = renderTerm v opt"
| "renderSQL (RangeQ v) opt = renderRange v opt"
| "renderSQL Other opt = (empty_query, Some ErrUnknownType)"
| "renderList [] opt query = (query\<lparr>q_Query := cleanExpr (q_Query query)\<rparr>, None)"
| "renderList (r # rs) opt query =
     (case renderSQL r opt of
        (q, Some err) \<Rightarrow> (query, Some err)
      | (q, None) \<Rightarrow>
          renderList rs opt
            (query\<lparr>q_Columns := add_columns (q_Columns query) (q_Columns q),
                   q_Args := q_Args query @ q_Args q,
                   q_Query := q_Query query @ q_Query q\<rparr>))"
| "renderArgs vop sz i [] opt query =
     (query\<lparr>q_Query := ''('' @ TrimSpace (cleanExpr (q_Query query)) @ '')''\<rparr>, None)"
| "renderArgs vop sz i (r # rs) opt query =
     (case renderSQL r opt of
        (q, Some err) \<Rightarrow> (q, Some err)
      | (q, None) \<Rightarrow>
          renderArgs vop sz (Suc i) rs opt
            (query\<lparr>q_Query :=
                     (if 0 < i \<and> i < sz \<and> \<not> starts_with_operator (q_Query q)
                      then q_Query query @ '' '' @ bool_op vop opt @ '' ''
                      else q_Query query) @ q_Query q,
                   q_Columns := add_columns (q_Columns query) (q_Columns q),
                   q_Args := q_Args query @ q_Args q\<rparr>))"
  by pat_completeness auto
termination
proof (relation "measures
    [case_sum (\<lambda>(v, opt). nstr v)
       (case_sum (\<lambda>(vs, opt, q). sum_list (map nstr vs))
                 (\<lambda>(vop, sz, i, vs, opt, q). sum_list (map nstr vs))),
     case_sum (\<lambda>(v, opt). size v)
       (case_sum (\<lambda>(vs, opt, q). size_list size vs)
                 (\<lambda>(vop, sz, i, vs, opt, q). size_list size vs))]")
qed (auto dest: Parse_no_str)

text \<open>
  \<open>ToSQL\<close> takes a pointer to the options and stores the default column handler through
  it when there is none; it returns the query and the error, and leaves the options as
  given second. (Called with a \<open>nil\<close> pointer it panics.)
\<close>

definition ToSQL :: "node \<Rightarrow> ToSQLOptions \<Rightarrow> (Query \<times> error option) \<times> ToSQLOptions" where
  "ToSQL flt opt =
     (let opt = (if ColumnHandler opt = None then opt\<lparr>ColumnHandler := Some default_handler\<rparr>
                 else opt) in
      case renderSQL flt opt of
        (query, Some err) \<Rightarrow> ((query, Some err), opt)
      | (query, None) \<Rightarrow> ((query\<lparr>q_Query := cleanExpr (q_Query query)\<rparr>, None), opt))"

section \<open>Package fieldmask\<close>

text \<open>
  The grammar of field masks. Its white space \<open>_\<close> is \<open>[ \t\r\n]*\<close>. Its rules \<open>QuotedTerm\<close>,
  \<open>Term\<close>, \<open>Path\<close>, \<open>TermGroup\<close>, \<open>TermArray\<close>, \<open>TermValue\<close> and \<open>Value\<close> are named
  \<open>fm_...\<close> here.
\<close>

datatype mask =
    termMask "string list"
  | termGroup "string list" "mask list"
  | termArray "mask list"

fun paths :: "mask \<Rightarrow> string list list" where
  "paths (termMask name) = [name]"
| "paths (termGroup name masks) = concat (map (\<lambda>m. map (\<lambda>p. name @ p) (paths m)) masks)"
| "paths (termArray masks) = concat (map paths masks)"

text \<open>
  \<open>QuotedTerm\<close> reads as in the Lucene grammar, but this grammar has no rule
  \<open>UnicodeEscape\<close>, which its \<open>EscapeSequence <- SingleCharEscape / UnicodeEscape\<close> names:
  after a backslash that no \<open>SingleCharEscape\<close> follows the parser records the error
  \<open>undefined rule\<close>, and the escape does not match.
\<close>

definition SingleCharEscape :: "char \<Rightarrow> bool" where
  "SingleCharEscape c =
     (c \<in> set [CHR 0x22, CHR 0x5C, CHR ''/'', CHR ''b'', CHR ''f'', CHR ''n'', CHR ''r'',
                CHR ''t''])"

text \<open>\<open>(!EscapedChar . / '\\' EscapeSequence)*\<close>: the text matched, the input left and the
  errors recorded.\<close>

fun fm_quoted_chars :: "string \<Rightarrow> string \<times> string \<times> perr list" where
  "fm_quoted_chars [] = ([], [], [])"
| "fm_quoted_chars (c # cs) =
     (if \<not> EscapedChar c then
        (case fm_quoted_chars cs of (b, r, es) \<Rightarrow> (c # b, r, es))
      else if c = CHR 0x5C then
        (case cs of
           [] \<Rightarrow> ([], c # cs, [ErrUndefinedRule])
         | d # ds \<Rightarrow>
             if SingleCharEscape d
             then (case fm_quoted_chars ds of (b, r, es) \<Rightarrow> (c # d # b, r, es))
             else ([], c # cs, [ErrUndefinedRule]))
      else ([], c # cs, []))"

definition fm_QuotedTerm :: "string \<Rightarrow> string pres" where
  "fm_QuotedTerm s =
     (case s of
        [] \<Rightarrow> NoMatch []
      | q # cs \<Rightarrow>
          if q \<noteq> CHR 0x22 then NoMatch []
          else
            (case fm_quoted_chars cs of
               (b, r, es) \<Rightarrow>
                 (case r of
                    [] \<Rightarrow> NoMatch es
                  | q' # r' \<Rightarrow>
                      if q' \<noteq> CHR 0x22 then NoMatch es
                      else
                        (case Unquote (replace_escaped_slash (q # b @ [q'])) of
                           Some v \<Rightarrow> Match v r' es
                         | None \<Rightarrow> Match [] r' (es @ [ErrUnquote])))))"

lemma fm_quoted_chars_length: "fm_quoted_chars cs = (b, r, es) \<Longrightarrow> length r \<le> length cs"
  by (induction cs arbitrary: b r es rule: fm_quoted_chars.induct)
     (auto split: if_splits prod.splits list.splits, fastforce+)

lemma leaves_lt_fm_QuotedTerm: "leaves_lt (length s) (fm_QuotedTerm s)"
  by (auto simp: fm_QuotedTerm_def leaves_lt_def split: list.splits prod.splits option.splits
      dest: fm_quoted_chars_length)

definition IdentifierChar :: "char \<Rightarrow> bool" where
  "IdentifierChar c =
     (c \<notin> set [CHR '':'', CHR '' '', CHR 0x09, CHR 0x0D, CHR 0x0A, CHR '')'', CHR ''('',
                 CHR ''/'', CHR '',''])"

definition Identifier :: "string \<Rightarrow> (string \<times> string) option" where
  "Identifier s =
     (let t = takeWhile IdentifierChar s in
      if t = [] then None else Some (t, dropWhile IdentifierChar s))"

text \<open>
  \<open>TermPath = QuotedTerm / Identifier / WildCard\<close>. An \<open>Identifier\<close> matches wherever
  \<open>WildCard\<close> does, so the last alternative is never taken.
\<close>

definition TermPath :: "string \<Rightarrow> string pres" where
  "TermPath s =
     orelse (fm_QuotedTerm s)
       (orelse (of_opt (Identifier s)) (seq (of_lit (lit ''*'' s)) (\<lambda>_ r. Match ''*'' r [])))"

lemma leaves_lt_Identifier: "leaves_lt (length s) (of_opt (Identifier s))"
proof (cases s)
  case Nil
  then show ?thesis by (simp add: Identifier_def of_opt_def leaves_lt_def)
next
  case (Cons c cs)
  have "length (dropWhile IdentifierChar cs) \<le> length cs" by (rule length_dropWhile_le)
  with Cons show ?thesis
    by (auto simp: Identifier_def of_opt_def leaves_lt_def Let_def)
qed

lemma leaves_lt_TermPath: "leaves_lt (length s) (TermPath s)"
  unfolding TermPath_def
  by (intro leaves_lt_orelse leaves_lt_fm_QuotedTerm leaves_lt_Identifier leaves_lt_seq1
      leaves_lt_of_lit_lit)
     (simp_all add: leaves_le_Match)

text \<open>\<open>('/' _ TermPath _)*\<close>, giving the value of each \<open>TermPath\<close>.\<close>

function PathRest :: "string \<Rightarrow> string list pres" where
  "PathRest s =
     (case lit ''/'' s of
        None \<Rightarrow> Match [] s []
      | Some r \<Rightarrow>
          (case TermPath (skip_ws r) of
             OutOfFuel \<Rightarrow> OutOfFuel
           | NoMatch es \<Rightarrow> Match [] s es
           | Match v r2 es \<Rightarrow>
               add_errs es (seq (PathRest (skip_ws r2)) (\<lambda>vs r3. Match (v # vs) r3 []))))"
  by pat_completeness auto
termination
proof (relation "measure length")
  fix s r v r2 es
  assume "lit ''/'' s = Some r" and m: "TermPath (skip_ws r) = Match v r2 es"
  then have "length r < length s" by (auto dest: lit_length)
  moreover have "length r2 < length (skip_ws r)"
    using leaves_lt_TermPath [of "skip_ws r"] m by (simp add: leaves_lt_def)
  ultimately show "(skip_ws r2, s) \<in> measure length"
    using skip_ws_length [of r] skip_ws_length [of r2] by simp
qed simp

definition fm_Path :: "string \<Rightarrow> string list pres" where
  "fm_Path s =
     seq (TermPath s) (\<lambda>id r. seq (PathRest (skip_ws r)) (\<lambda>vals r.
       if vals = [] then NoMatch [] else Match (id # map strip_spaces vals) r []))"

definition fm_Term :: "string \<Rightarrow> mask pres" where
  "fm_Term s =
     seq (orelse (fm_QuotedTerm (skip_ws s)) (of_opt (Identifier (skip_ws s)))) (\<lambda>id r.
     seq (PathRest (skip_ws r)) (\<lambda>vals r.
       Match (termMask (strip_spaces id # map strip_spaces vals)) r []))"

text \<open>
  The rules \<open>TermValue\<close>, \<open>TermGroup\<close>, \<open>TermArray\<close> and \<open>(',' _ TermValue)*\<close> call each
  other; every call among them takes one unit of fuel.
\<close>

fun fm_TermValue :: "nat \<Rightarrow> string \<Rightarrow> mask pres"
  and fm_TermGroup :: "nat \<Rightarrow> string \<Rightarrow> mask pres"
  and fm_TermArray :: "nat \<Rightarrow> string \<Rightarrow> mask pres"
  and fm_ArrayRest :: "nat \<Rightarrow> string \<Rightarrow> mask list pres"
where
  "fm_TermValue 0 s = OutOfFuel"
| "fm_TermValue (Suc n) s = orelse (fm_TermGroup n s) (fm_Term s)"
| "fm_TermGroup 0 s = OutOfFuel"
| "fm_TermGroup (Suc n) s =
     seq (orelse (fm_Path (skip_ws s))
           (orelse (map_pres (\<lambda>key. [key]) (fm_QuotedTerm (skip_ws s)))
                   (map_pres (\<lambda>key. [key]) (of_opt (Identifier (skip_ws s)))))) (\<lambda>names r.
     seq (of_lit (lit ''('' (skip_ws r))) (\<lambda>_ r.
     seq (orelse (fm_TermArray n (skip_ws r)) (fm_TermValue n (skip_ws r))) (\<lambda>vals r.
     seq (of_lit (lit '')'' (skip_ws r))) (\<lambda>_ r.
       Match (termGroup names [vals]) r []))))"
| "fm_TermArray 0 s = OutOfFuel"
| "fm_TermArray (Suc n) s =
     seq (fm_TermValue n s) (\<lambda>v r. seq (fm_ArrayRest n (skip_ws r)) (\<lambda>vs r.
       if vs = [] then NoMatch [] else Match (termArray (v # vs)) r []))"
| "fm_ArrayRest 0 s = OutOfFuel"
| "fm_ArrayRest (Suc n) s =
     (case lit '','' s of
        None \<Rightarrow> Match [] s []
      | Some r \<Rightarrow>
          (case fm_TermValue n (skip_ws r) of
             OutOfFuel \<Rightarrow> OutOfFuel
           | NoMatch es \<Rightarrow> Match [] s es
           | Match v r2 es \<Rightarrow>
               add_errs es (seq (fm_ArrayRest n r2) (\<lambda>vs r3. Match (v # vs) r3 []))))"

definition fm_Value :: "nat \<Rightarrow> string \<Rightarrow> mask pres" where
  "fm_Value n s =
     seq (orelse (fm_TermArray n s) (fm_TermValue n s)) (\<lambda>val r. Match val (skip_ws r) [])"

text \<open>
  The rule \<open>Masks\<close> (\<open>Value EOF\<close>, giving the paths) and the function \<open>Masks\<close>: the paths,
  or the error of the parser. The rule matches only up to the end of the input, so the
  parser has then read all of it, and has recorded \<open>invalid encoding\<close> if any of it is
  ill-formed.
\<close>

definition fm_Masks :: "nat \<Rightarrow> string \<Rightarrow> string list list pres" where
  "fm_Masks n s = seq (fm_Value n s) (\<lambda>val r. seq (eof r) (\<lambda>_ r. Match (paths val) r []))"

definition Masks :: "string \<Rightarrow> parse_error + string list list" where
  "Masks q =
     (case fm_Masks (fuel q) q of
        OutOfFuel \<Rightarrow> Inl ParseOutOfFuel
      | NoMatch es \<Rightarrow> Inl (ParseErrors (es @ [ErrNoMatch]))
      | Match v r es \<Rightarrow>
          if ill_formed_upto (length q - length r) q
          then Inl (ParseErrors (ErrInvalidEncoding # es))
          else if es = [] then Inr v
          else Inl (ParseErrors es))"

section \<open>Evaluating the rules on a given input\<close>

text \<open>
  With these rules the simplifier runs a rule the way the parser does: the first part of a
  sequence or of a choice is evaluated first, and the rest only when it is reached.
\<close>

lemma seq_cong [cong]: "p = p' \<Longrightarrow> seq p f = seq p' f"
  by simp

lemma orelse_cong [cong]: "p = p' \<Longrightarrow> orelse p q = orelse p' q"
  by simp

lemma seq_simps [simp]:
  "seq OutOfFuel f = OutOfFuel"
  "seq (NoMatch es) f = NoMatch es"
  "seq (Match a r es) f = add_errs es (f a r)"
  by (simp_all add: seq_def)

lemma orelse_simps [simp]:
  "orelse OutOfFuel q = OutOfFuel"
  "orelse (NoMatch es) q = add_errs es q"
  "orelse (Match a r es) q = Match a r es"
  by (simp_all add: orelse_def)

lemma optional_simps [simp]:
  "optional OutOfFuel s = OutOfFuel"
  "optional (NoMatch es) s = Match None s es"
  "optional (Match a r es) s = Match (Some a) r es"
  by (simp_all add: optional_def)

lemmas parse_simps =
  Parse_def Start_def toFlatSlice_def flat_args_def eof_def Fieldname_def RangeOperatorExp_def
  RangeBound_def ArrayValue_def Term_def WildCardExp_def WildCardChar_def Null_def BoolExp_def
  DecimalOrIntExp_def DecimalExp_def IntExp_def UQTerm_def QuotedTerm_def EscapeSequence_def
  EscapedChar_def UnquotedTerm_def TermChar_def PrefixOperatorExp_def EqualityExpr_def
  Equality_def OperatorExp_def Operator_def ws1_def skip_ws_def is_ws_def of_lit_def of_opt_def
  toIfaceStr_def ArrayExp_def tq_Query_def is_digit_def byte_def Atoi_def nat_of_digits_def
  digit_val_def FieldExp_group_def ArrayRest.simps Let_def cont_byte_def

lemmas mask_simps =
  Masks_def fm_Masks_def fm_Value_def fm_Term_def fm_Path_def TermPath_def Identifier_def
  IdentifierChar_def PathRest.simps strip_spaces_def Unquote_def fm_QuotedTerm_def
  SingleCharEscape_def

lemmas render_simps =
  renderTerm_def termSQL_def renderRange_def rangeSQL_def empty_query_def add_columns_def cache_def default_handler_def
  bool_op_def operatorMappings_def PlaceHolder_def quote_def SearchModeAny_def SearchModeAll_def
  rq_Kind_def HasMin_def HasMax_def wc_Kind_def Let_def

lemmas regex_simps =
  cleanExpr_def regex1_def regex2_def regex3_def replace_anchored_def starts_with_operator_def
  re_space_def not_paren_def not_quote_def TrimSpace_def space_runes_def upt_rec trim_left.simps


lemma first_some_cong [cong]: "xs = ys \<Longrightarrow> first_some f xs = first_some f ys"
  by simp

declare trim_left.simps [simp del] ArrayRest.simps [simp del] PathRest.simps [simp del]

section \<open>The claims\<close>

text \<open>
  The options of the repository's tests: a default field, a search mode, no handler given.
\<close>

definition test_options :: "string \<Rightarrow> int \<Rightarrow> ToSQLOptions" where
  "test_options d m = \<lparr>DefaultField = d, SearchMode = m, InHandler = None, ColumnHandler = None\<rparr>"

text \<open>
  C6. A \<open>TermQuery\<close> whose value is \<open>nil\<close> and whose field is known (the column handler
  gives a fragment without a query of its own, and the fragment's term, or else the default
  field, is not empty) renders as \<open>term IS NULL\<close>, or as \<open>term IS NOT NULL\<close> when its prefix
  is \<open>-\<close>, with no arguments and no error.
\<close>

theorem null_term_renders_is_null:
  assumes "ColumnHandler opt = Some h" and "h (TermQ v) = Inr fragment"
    and "fr_Query fragment = []" and "tq_Value v = VNil"
    and "term = (if fr_Term fragment = [] then DefaultField opt else fr_Term fragment)"
    and "term \<noteq> []"
  shows "snd (renderSQL (TermQ v) opt) = None
    \<and> q_Args (fst (renderSQL (TermQ v) opt)) = []
    \<and> q_Query (fst (renderSQL (TermQ v) opt)) =
        (if tq_Prefix v = ''-'' then term @ '' IS NOT NULL'' else term @ '' IS NULL'')"
  using assms by (auto simp: renderTerm_def termSQL_def Let_def)

theorem null_term_renders_is_null_witness:
  "renderSQL (TermQ \<lparr>tq_Term = ''age'', tq_Prefix = ''-'', tq_Op = [], tq_Value = VNil\<rparr>)
     (test_options [] 0\<lparr>ColumnHandler := Some default_handler\<rparr>)
   = (\<lparr>q_Query = ''age IS NOT NULL'', q_Args = [], q_Columns = [''age'']\<rparr>, None)"
  using null_term_renders_is_null
    [of "test_options [] 0\<lparr>ColumnHandler := Some default_handler\<rparr>" default_handler
        "\<lparr>tq_Term = ''age'', tq_Prefix = ''-'', tq_Op = [], tq_Value = VNil\<rparr>"
        "\<lparr>fr_Column = ''age'', fr_Term = ''age'', fr_Query = [], fr_Args = []\<rparr>" "''age''"]
  by (simp add: test_options_def default_handler_def renderTerm_def termSQL_def Let_def)




text \<open>
  C7. \<open>f: []\<close> parses to the term \<open>f\<close> with operator \<open>in\<close> and the empty list, which \<open>ToSQL\<close>
  renders as \<open>1 = 0\<close> without arguments. In general a \<open>TermQuery\<close> with operator \<open>in\<close>, a list
  as its value and a known field renders as \<open>1 = 0\<close> without arguments when the list is
  empty, and as \<open>term IN (?)\<close> with one argument otherwise: the list, or what \<open>InHandler\<close>
  makes of it. The term's prefix, if any, puts its operator in front, as for every term
  (a term parsed from an array has none).
\<close>

theorem in_list_rendering:
  assumes "ColumnHandler opt = Some h" and "h (TermQ v) = Inr fragment"
    and "fr_Query fragment = []" and "tq_Op v = ''in''" and "tq_Value v = VSlice l"
    and "term = (if fr_Term fragment = [] then DefaultField opt else fr_Term fragment)"
    and "term \<noteq> []"
  shows "Parse ''f: []'' =
           Inr (TermQ \<lparr>tq_Term = ''f'', tq_Prefix = [], tq_Op = ''in'', tq_Value = VSlice []\<rparr>)
    \<and> fst (ToSQL (StrQ ''f: []'') (test_options [] 0)) =
          (\<lparr>q_Query = ''1 = 0'', q_Args = [], q_Columns = [''f'']\<rparr>, None)
    \<and> snd (renderSQL (TermQ v) opt) = None
    \<and> q_Query (fst (renderSQL (TermQ v) opt)) =
          (if tq_Prefix v = ''+'' then '' AND ''
           else if tq_Prefix v = ''-''
             then (if SearchMode opt = SearchModeAny then '' OR NOT '' else '' AND NOT '')
           else []) @
          (if l = [] then ''1 = 0'' else term @ '' IN (?)'')
    \<and> q_Args (fst (renderSQL (TermQ v) opt)) =
          (if l = [] then []
           else [case InHandler opt of None \<Rightarrow> VSlice l | Some f \<Rightarrow> f (VSlice l)])"
proof -
  have p: "Parse ''f: []'' =
      Inr (TermQ \<lparr>tq_Term = ''f'', tq_Prefix = [], tq_Op = ''in'', tq_Value = VSlice []\<rparr>)"
    by (simp add: parse_simps)
  have t: "fst (ToSQL (StrQ ''f: []'') (test_options [] 0)) =
      (\<lparr>q_Query = ''1 = 0'', q_Args = [], q_Columns = [''f'']\<rparr>, None)"
    by (simp add: ToSQL_def test_options_def p render_simps regex_simps)
  have r: "snd (renderSQL (TermQ v) opt) = None
    \<and> q_Query (fst (renderSQL (TermQ v) opt)) =
          (if tq_Prefix v = ''+'' then '' AND ''
           else if tq_Prefix v = ''-''
             then (if SearchMode opt = SearchModeAny then '' OR NOT '' else '' AND NOT '')
           else []) @
          (if l = [] then ''1 = 0'' else term @ '' IN (?)'')
    \<and> q_Args (fst (renderSQL (TermQ v) opt)) =
          (if l = [] then []
           else [case InHandler opt of None \<Rightarrow> VSlice l | Some f \<Rightarrow> f (VSlice l)])"
    using assms
    by (auto simp: renderTerm_def termSQL_def Let_def operatorMappings_def PlaceHolder_def
        split: option.splits)
  from p t r show ?thesis by blast
qed

theorem in_list_rendering_witness:
  "renderSQL (TermQ \<lparr>tq_Term = ''age'', tq_Prefix = [], tq_Op = ''in'',
                      tq_Value = VSlice [VInt 19, VInt 20]\<rparr>)
     (test_options [] 0\<lparr>ColumnHandler := Some default_handler\<rparr>)
   = (\<lparr>q_Query = ''age IN (?)'', q_Args = [VSlice [VInt 19, VInt 20]],
       q_Columns = [''age'']\<rparr>, None)"
  using in_list_rendering
    [of "test_options [] 0\<lparr>ColumnHandler := Some default_handler\<rparr>" default_handler
        "\<lparr>tq_Term = ''age'', tq_Prefix = [], tq_Op = ''in'', tq_Value = VSlice [VInt 19, VInt 20]\<rparr>"
        "\<lparr>fr_Column = ''age'', fr_Term = ''age'', fr_Query = [], fr_Args = []\<rparr>"
        "[VInt 19, VInt 20]" "''age''"]
  by (simp add: test_options_def default_handler_def renderTerm_def termSQL_def Let_def
      operatorMappings_def PlaceHolder_def)

text \<open>
  C8, as the code has it. With the default column handler, a \<open>TermQuery\<close> or \<open>RangeQuery\<close>
  with an empty term fails when the default field is empty too (a term with
  \<open>invalid term value ... provided for term without a name\<close>, a range with
  \<open>invalid range term value ... provided for term without a name\<close>). When the default field
  is not empty, the node renders as the same node with the default field as its term does,
  only that no column is recorded: a term then always renders, a range renders exactly
  when its kind is one of gt, gte, lt, lte, between.
\<close>

theorem default_field_substituted:
  assumes "ColumnHandler opt = None"
  shows "(tq_Term t = [] \<and> DefaultField opt = [] \<longrightarrow>
            snd (fst (ToSQL (TermQ t) opt)) = Some (ErrInvalidTerm (tq_Value t)))
    \<and> (rq_Term r = [] \<and> DefaultField opt = [] \<longrightarrow>
            snd (fst (ToSQL (RangeQ r) opt)) = Some (ErrInvalidRangeTerm r))
    \<and> (tq_Term t = [] \<and> DefaultField opt \<noteq> [] \<longrightarrow>
            snd (fst (ToSQL (TermQ t) opt)) = None
          \<and> fst (fst (ToSQL (TermQ t) opt)) =
              (fst (fst (ToSQL (TermQ (t\<lparr>tq_Term := DefaultField opt\<rparr>)) opt)))\<lparr>q_Columns := []\<rparr>)
    \<and> (rq_Term r = [] \<and> DefaultField opt \<noteq> [] \<longrightarrow>
            (snd (fst (ToSQL (RangeQ r) opt)) = None) =
              (rq_Kind r \<in> set [''gt'', ''gte'', ''lt'', ''lte'', ''between''])
          \<and> snd (fst (ToSQL (RangeQ r) opt)) =
              snd (fst (ToSQL (RangeQ (r\<lparr>rq_Term := DefaultField opt\<rparr>)) opt))
          \<and> fst (fst (ToSQL (RangeQ r) opt)) =
              (fst (fst (ToSQL (RangeQ (r\<lparr>rq_Term := DefaultField opt\<rparr>)) opt)))\<lparr>q_Columns := []\<rparr>)"
proof -
  have kind: "rq_Kind (r\<lparr>rq_Term := d\<rparr>) = rq_Kind r" for d
    by (simp add: rq_Kind_def HasMin_def HasMax_def Let_def)
  have tsql: "termSQL tm (t\<lparr>tq_Term := d\<rparr>) opt' = termSQL tm t opt'" for tm d opt'
    unfolding termSQL_def
    by (simp split del: if_split cong del: if_weak_cong val.case_cong_weak option.case_cong_weak)
  have rsql: "rangeSQL tm (r\<lparr>rq_Term := d\<rparr>) k = rangeSQL tm r k" for tm d k
    unfolding rangeSQL_def
    by (simp split del: if_split cong del: if_weak_cong option.case_cong_weak)
  have rnone: "(rangeSQL tm r k = None) =
      (k \<notin> set [''gt'', ''gte'', ''lt'', ''lte'', ''between''])" for tm k
    by (simp add: rangeSQL_def Let_def)
  have 1: "tq_Term t = [] \<and> DefaultField opt = [] \<longrightarrow>
      snd (fst (ToSQL (TermQ t) opt)) = Some (ErrInvalidTerm (tq_Value t))"
    using assms by (simp add: ToSQL_def renderTerm_def default_handler_def Let_def)
  have 2: "rq_Term r = [] \<and> DefaultField opt = [] \<longrightarrow>
      snd (fst (ToSQL (RangeQ r) opt)) = Some (ErrInvalidRangeTerm r)"
    using assms by (simp add: ToSQL_def renderRange_def default_handler_def Let_def)
  have 3: "tq_Term t = [] \<and> DefaultField opt \<noteq> [] \<longrightarrow>
      snd (fst (ToSQL (TermQ t) opt)) = None
      \<and> fst (fst (ToSQL (TermQ t) opt)) =
          (fst (fst (ToSQL (TermQ (t\<lparr>tq_Term := DefaultField opt\<rparr>)) opt)))\<lparr>q_Columns := []\<rparr>"
    using assms
    by (simp add: ToSQL_def renderTerm_def default_handler_def Let_def tsql split_def)
  have 4: "rq_Term r = [] \<and> DefaultField opt \<noteq> [] \<longrightarrow>
      (snd (fst (ToSQL (RangeQ r) opt)) = None) =
        (rq_Kind r \<in> set [''gt'', ''gte'', ''lt'', ''lte'', ''between''])
      \<and> snd (fst (ToSQL (RangeQ r) opt)) =
          snd (fst (ToSQL (RangeQ (r\<lparr>rq_Term := DefaultField opt\<rparr>)) opt))
      \<and> fst (fst (ToSQL (RangeQ r) opt)) =
          (fst (fst (ToSQL (RangeQ (r\<lparr>rq_Term := DefaultField opt\<rparr>)) opt)))\<lparr>q_Columns := []\<rparr>"
    using assms rnone [of "DefaultField opt" "rq_Kind r"]
    by (cases "rangeSQL (DefaultField opt) r (rq_Kind r)")
       (auto simp: ToSQL_def renderRange_def default_handler_def Let_def kind rsql)
  from 1 2 3 4 show ?thesis by blast
qed

theorem default_field_substituted_witness:
  "ColumnHandler (test_options ''id'' 0) = None
   \<and> tq_Term \<lparr>tq_Term = [], tq_Prefix = [], tq_Op = [], tq_Value = VInt 5\<rparr> = []
   \<and> DefaultField (test_options ''id'' 0) \<noteq> []
   \<and> snd (fst (ToSQL (TermQ \<lparr>tq_Term = [], tq_Prefix = [], tq_Op = [], tq_Value = VInt 5\<rparr>)
         (test_options ''id'' 0))) = None"
proof -
  have h: "ColumnHandler (test_options ''id'' 0) = None"
    by (simp add: test_options_def)
  have a: "tq_Term \<lparr>tq_Term = [], tq_Prefix = [], tq_Op = [], tq_Value = VInt 5\<rparr> = []
      \<and> DefaultField (test_options ''id'' 0) \<noteq> []"
    by (simp add: test_options_def)
  from default_field_substituted
    [OF h, of "\<lparr>tq_Term = [], tq_Prefix = [], tq_Op = [], tq_Value = VInt 5\<rparr>"] a h
  show ?thesis by blast
qed

text \<open>
  The claim C8 as it was stated fails on a range without bounds, which the parser builds
  from \<open>{* TO *}\<close>: with a default field it still does not render.
\<close>

theorem default_field_range_counterexample:
  "Parse ''{* TO *}'' =
     Inr (RangeQ \<lparr>rq_Min = VStr ''*'', rq_Max = VStr ''*'', rq_Term = [], rq_Inclusive = False\<rparr>)
   \<and> DefaultField (test_options ''id'' 0) \<noteq> []
   \<and> snd (fst (ToSQL (RangeQ \<lparr>rq_Min = VStr ''*'', rq_Max = VStr ''*'', rq_Term = [],
                             rq_Inclusive = False\<rparr>) (test_options ''id'' 0)))
     = Some (ErrUnknownRangeType [])"
proof -
  have "Parse ''{* TO *}'' =
     Inr (RangeQ \<lparr>rq_Min = VStr ''*'', rq_Max = VStr ''*'', rq_Term = [], rq_Inclusive = False\<rparr>)"
    by (simp add: parse_simps)
  moreover have "snd (fst (ToSQL (RangeQ \<lparr>rq_Min = VStr ''*'', rq_Max = VStr ''*'', rq_Term = [],
                             rq_Inclusive = False\<rparr>) (test_options ''id'' 0)))
     = Some (ErrUnknownRangeType [])"
    by (simp add: test_options_def ToSQL_def render_simps)
  ultimately show ?thesis by (simp add: test_options_def)
qed

text \<open>
  C1. \<open>renderSQL\<close> looks every column up in \<open>cache\<close> before appending it, and never writes
  to \<open>cache\<close>: no column is ever found there, and a column referenced twice is listed
  twice. Here the query \<open>a:1 a:2\<close>, which renders without error.
\<close>

theorem columns_listed_twice:
  "fst (ToSQL (StrQ ''a:1 a:2'') (test_options [] 0)) =
     (\<lparr>q_Query = ''(a = ? OR a = ?)'', q_Args = [VInt 1, VInt 2], q_Columns = [''a'', ''a'']\<rparr>,
      None)"
proof -
  have p: "Parse ''a:1 a:2'' =
      Inr (BoolQ ''IMPLICIT''
        [TermQ \<lparr>tq_Term = ''a'', tq_Prefix = [], tq_Op = [], tq_Value = VInt 1\<rparr>,
         TermQ \<lparr>tq_Term = ''a'', tq_Prefix = [], tq_Op = [], tq_Value = VInt 2\<rparr>])"
    by (simp add: parse_simps)
  have c: "cleanExpr ''a = ? OR a = ?'' = ''a = ? OR a = ?''"
    by (simp add: regex_simps)
  have t: "TrimSpace ''a = ? OR a = ?'' = ''a = ? OR a = ?''"
    by (simp add: regex_simps)
  have c2: "cleanExpr ''(a = ? OR a = ?)'' = ''(a = ? OR a = ?)''"
    by (simp add: regex_simps)
  have s: "\<not> starts_with_operator ''a = ?''"
    by (simp add: regex_simps)
  show ?thesis
    by (simp add: ToSQL_def test_options_def p render_simps c t c2 s)
qed

text \<open>
  C2, as the code has it. A range has a bound when its minimum or its maximum is neither
  \<open>nil\<close> nor \<open>*\<close>. With a bound, \<open>RangeQuery.Kind\<close> gives one of gt, gte, lt, lte, between,
  and neither \<open>renderSQL\<close> nor \<open>ToSQL\<close> fails with \<open>unknown range type\<close>, whatever the
  options. Without a bound the kind is the empty string, or \<open>e\<close> for an inclusive range, and
  with the default column handler and a field (the range's term, or else the default
  field) \<open>ToSQL\<close> fails with \<open>unknown range type\<close> and that kind. The parser builds ranges
  without a bound: from \<open>f: {* TO *}\<close>, from \<open>f: [* TO *]\<close> and from \<open>f: > null\<close>.
\<close>

theorem range_kind_by_bounds:
  "(HasMin r \<or> HasMax r \<longrightarrow>
      rq_Kind r \<in> set [''gt'', ''gte'', ''lt'', ''lte'', ''between'']
    \<and> snd (renderSQL (RangeQ r) opt) \<noteq> Some (ErrUnknownRangeType k)
    \<and> snd (fst (ToSQL (RangeQ r) opt)) \<noteq> Some (ErrUnknownRangeType k))
   \<and> (\<not> HasMin r \<and> \<not> HasMax r \<longrightarrow>
      rq_Kind r = (if rq_Inclusive r then ''e'' else [])
    \<and> (ColumnHandler opt = None \<and> (rq_Term r \<noteq> [] \<or> DefaultField opt \<noteq> []) \<longrightarrow>
         snd (fst (ToSQL (RangeQ r) opt)) = Some (ErrUnknownRangeType (rq_Kind r))))
   \<and> Parse ''f: {* TO *}'' =
       Inr (RangeQ \<lparr>rq_Min = VStr ''*'', rq_Max = VStr ''*'', rq_Term = ''f'',
                     rq_Inclusive = False\<rparr>)
   \<and> Parse ''f: [* TO *]'' =
       Inr (RangeQ \<lparr>rq_Min = VStr ''*'', rq_Max = VStr ''*'', rq_Term = ''f'',
                     rq_Inclusive = True\<rparr>)
   \<and> Parse ''f: > null'' =
       Inr (RangeQ \<lparr>rq_Min = VNil, rq_Max = VStr ''*'', rq_Term = ''f'',
                     rq_Inclusive = False\<rparr>)"
proof -
  have with_bound: "rq_Kind r \<in> set [''gt'', ''gte'', ''lt'', ''lte'', ''between'']
      \<and> snd (renderSQL (RangeQ r) opt) \<noteq> Some (ErrUnknownRangeType k)
      \<and> snd (fst (ToSQL (RangeQ r) opt)) \<noteq> Some (ErrUnknownRangeType k)"
    if b: "HasMin r \<or> HasMax r"
  proof -
    from b have kind: "rq_Kind r \<in> set [''gt'', ''gte'', ''lt'', ''lte'', ''between'']"
      by (auto simp: rq_Kind_def Let_def)
    have some: "(rangeSQL tm r (rq_Kind r) = None) = False" for tm
      using kind by (auto simp: rangeSQL_def Let_def)
    have rr: "snd (renderRange r opt') \<noteq> Some (ErrUnknownRangeType k)" for opt'
      by (simp add: renderRange_def Let_def some split: option.splits sum.splits)
    have "snd (fst (ToSQL (RangeQ r) opt)) \<noteq> Some (ErrUnknownRangeType k)"
      using rr [of "opt\<lparr>ColumnHandler := Some default_handler\<rparr>"] rr [of opt]
      by (cases "ColumnHandler opt")
         (auto simp: ToSQL_def Let_def split: prod.splits option.splits)
    with kind rr [of opt] show ?thesis by simp
  qed
  have without: "rq_Kind r = (if rq_Inclusive r then ''e'' else [])
      \<and> (ColumnHandler opt = None \<and> (rq_Term r \<noteq> [] \<or> DefaultField opt \<noteq> []) \<longrightarrow>
           snd (fst (ToSQL (RangeQ r) opt)) = Some (ErrUnknownRangeType (rq_Kind r)))"
    if n: "\<not> HasMin r \<and> \<not> HasMax r"
  proof -
    from n have kind: "rq_Kind r = (if rq_Inclusive r then ''e'' else [])"
      by (simp add: rq_Kind_def Let_def)
    then have none: "rangeSQL tm r (rq_Kind r) = None" for tm
      by (simp add: rangeSQL_def Let_def)
    have "snd (fst (ToSQL (RangeQ r) opt)) = Some (ErrUnknownRangeType (rq_Kind r))"
      if "ColumnHandler opt = None" and "rq_Term r \<noteq> [] \<or> DefaultField opt \<noteq> []"
      using that
      by (auto simp: ToSQL_def renderRange_def default_handler_def Let_def none)
    with kind show ?thesis by blast
  qed
  have p1: "Parse ''f: {* TO *}'' =
       Inr (RangeQ \<lparr>rq_Min = VStr ''*'', rq_Max = VStr ''*'', rq_Term = ''f'',
                     rq_Inclusive = False\<rparr>)"
    by (simp add: parse_simps)
  have p2: "Parse ''f: [* TO *]'' =
       Inr (RangeQ \<lparr>rq_Min = VStr ''*'', rq_Max = VStr ''*'', rq_Term = ''f'',
                     rq_Inclusive = True\<rparr>)"
    by (simp add: parse_simps)
  have p3: "Parse ''f: > null'' =
       Inr (RangeQ \<lparr>rq_Min = VNil, rq_Max = VStr ''*'', rq_Term = ''f'',
                     rq_Inclusive = False\<rparr>)"
    by (simp add: parse_simps)
  from with_bound without p1 p2 p3 show ?thesis by blast
qed

theorem range_kind_by_bounds_witness:
  "HasMin \<lparr>rq_Min = VInt 5, rq_Max = VStr ''*'', rq_Term = ''f'', rq_Inclusive = True\<rparr>
   \<and> rq_Kind \<lparr>rq_Min = VInt 5, rq_Max = VStr ''*'', rq_Term = ''f'', rq_Inclusive = True\<rparr>
       \<in> set [''gt'', ''gte'', ''lt'', ''lte'', ''between'']
   \<and> \<not> HasMin \<lparr>rq_Min = VNil, rq_Max = VStr ''*'', rq_Term = ''f'', rq_Inclusive = False\<rparr>
   \<and> \<not> HasMax \<lparr>rq_Min = VNil, rq_Max = VStr ''*'', rq_Term = ''f'', rq_Inclusive = False\<rparr>
   \<and> ColumnHandler (test_options [] 0) = None
   \<and> snd (fst (ToSQL (RangeQ \<lparr>rq_Min = VNil, rq_Max = VStr ''*'', rq_Term = ''f'',
                              rq_Inclusive = False\<rparr>) (test_options [] 0)))
       = Some (ErrUnknownRangeType [])"
proof -
  let ?a = "\<lparr>rq_Min = VInt 5, rq_Max = VStr ''*'', rq_Term = ''f'', rq_Inclusive = True\<rparr>"
  let ?b = "\<lparr>rq_Min = VNil, rq_Max = VStr ''*'', rq_Term = ''f'', rq_Inclusive = False\<rparr>"
  have a: "HasMin ?a" by (simp add: HasMin_def)
  have b: "\<not> HasMin ?b \<and> \<not> HasMax ?b" by (simp add: HasMin_def HasMax_def)
  have h: "ColumnHandler (test_options [] 0) = None" by (simp add: test_options_def)
  have t: "rq_Term ?b \<noteq> []" by simp
  from range_kind_by_bounds [of ?a] a
  have 1: "rq_Kind ?a \<in> set [''gt'', ''gte'', ''lt'', ''lte'', ''between'']" by blast
  from range_kind_by_bounds [of ?b "test_options [] 0"] b h t
  have "rq_Kind ?b = [] \<and>
    snd (fst (ToSQL (RangeQ ?b) (test_options [] 0))) = Some (ErrUnknownRangeType (rq_Kind ?b))"
    by simp
  then have 2: "snd (fst (ToSQL (RangeQ ?b) (test_options [] 0))) = Some (ErrUnknownRangeType [])"
    by simp
  from a b h 1 2 show ?thesis by blast
qed

text \<open>
  The claim C2 as it was stated fails on \<open>f: {* TO *}\<close>: the parser gives a range whose
  kind is the empty string, and \<open>ToSQL\<close> fails on the query with \<open>unknown range type\<close>.
\<close>

theorem range_without_bounds_counterexample:
  "Parse ''f: {* TO *}'' =
     Inr (RangeQ \<lparr>rq_Min = VStr ''*'', rq_Max = VStr ''*'', rq_Term = ''f'', rq_Inclusive = False\<rparr>)
   \<and> rq_Kind \<lparr>rq_Min = VStr ''*'', rq_Max = VStr ''*'', rq_Term = ''f'', rq_Inclusive = False\<rparr>
       \<notin> set [''gt'', ''gte'', ''lt'', ''lte'', ''between'']
   \<and> snd (fst (ToSQL (StrQ ''f: {* TO *}'') (test_options [] 0))) = Some (ErrUnknownRangeType [])"
proof -
  have p: "Parse ''f: {* TO *}'' =
     Inr (RangeQ \<lparr>rq_Min = VStr ''*'', rq_Max = VStr ''*'', rq_Term = ''f'', rq_Inclusive = False\<rparr>)"
    by (simp add: parse_simps)
  have k: "rq_Kind \<lparr>rq_Min = VStr ''*'', rq_Max = VStr ''*'', rq_Term = ''f'', rq_Inclusive = False\<rparr>
       \<notin> set [''gt'', ''gte'', ''lt'', ''lte'', ''between'']"
    by (simp add: rq_Kind_def HasMin_def HasMax_def)
  have "snd (fst (ToSQL (StrQ ''f: {* TO *}'') (test_options [] 0))) = Some (ErrUnknownRangeType [])"
    by (simp add: test_options_def ToSQL_def p render_simps)
  with p k show ?thesis by blast
qed

text \<open>
  C3, as the code has it. \<open>ToSQL\<close> writes to the options it is given in one case only: when
  they have no column handler it stores the default one in them. Nothing else of the
  options changes, and the options are left as given when they have a handler. A second
  call with the options as the first call left them returns what the first call returned.
\<close>

theorem ToSQL_options_after:
  "snd (ToSQL flt opt) =
     opt\<lparr>ColumnHandler :=
           Some (case ColumnHandler opt of None \<Rightarrow> default_handler | Some h \<Rightarrow> h)\<rparr>
   \<and> fst (ToSQL flt (snd (ToSQL flt opt))) = fst (ToSQL flt opt)"
proof -
  have 1: "snd (ToSQL flt opt) =
     opt\<lparr>ColumnHandler :=
           Some (case ColumnHandler opt of None \<Rightarrow> default_handler | Some h \<Rightarrow> h)\<rparr>"
    by (cases "ColumnHandler opt")
       (auto simp: ToSQL_def Let_def split: prod.splits option.splits)
  have same: "opt\<lparr>ColumnHandler := Some h\<rparr> = opt" if "ColumnHandler opt = Some h" for h
    using that by (cases opt) simp
  have 2: "fst (ToSQL flt (opt\<lparr>ColumnHandler := Some g\<rparr>)) = fst (ToSQL flt opt)"
    if "g = (case ColumnHandler opt of None \<Rightarrow> default_handler | Some h \<Rightarrow> h)" for g
  proof (cases "ColumnHandler opt")
    case None
    with that show ?thesis by (simp add: ToSQL_def Let_def)
  next
    case (Some h)
    with that have "g = h" by simp
    then show ?thesis by (simp only: same [OF Some])
  qed
  from 1 2 show ?thesis by simp
qed

text \<open>
  The claim C3 as it was stated fails on options without a column handler: after the call
  they hold one.
\<close>

theorem ToSQL_changes_options_counterexample:
  "snd (ToSQL (TermQ \<lparr>tq_Term = ''age'', tq_Prefix = [], tq_Op = [], tq_Value = VInt 5\<rparr>)
         (test_options [] 0)) \<noteq> test_options [] 0"
proof
  assume "snd (ToSQL (TermQ \<lparr>tq_Term = ''age'', tq_Prefix = [], tq_Op = [], tq_Value = VInt 5\<rparr>)
         (test_options [] 0)) = test_options [] 0"
  then have "ColumnHandler (snd (ToSQL (TermQ \<lparr>tq_Term = ''age'', tq_Prefix = [], tq_Op = [],
      tq_Value = VInt 5\<rparr>) (test_options [] 0))) = ColumnHandler (test_options [] 0)"
    by simp
  then show False
    by (simp add: ToSQL_def test_options_def Let_def split: prod.splits option.splits)
qed

text \<open>The ranges in a node, from left to right.\<close>

fun ranges :: "node \<Rightarrow> RangeQuery list" where
  "ranges (RangeQ r) = [r]"
| "ranges (BoolQ op args) = concat (map ranges args)"
| "ranges (ListQ l) = concat (map ranges l)"
| "ranges _ = []"

lemma ranges_updateFieldName: "ranges (updateFieldName v name) = ranges v"
  by (induction v name rule: updateFieldName.induct) (simp_all add: comp_def cong: map_cong)

text \<open>
  C10. Field-name propagation leaves every range as it is: \<open>updateFieldName\<close> returns a node
  with the same ranges, terms included, and so does the action of \<open>FieldExp\<close> for \<open>F:(E)\<close>
  unless \<open>E\<close> is a single term (which holds no range). So \<open>F:([1 TO 2])\<close> parses to a range
  with the empty term, which renders with the default field, and fails without one.
\<close>

theorem propagation_keeps_ranges:
  "ranges (updateFieldName node field) = ranges node
   \<and> ((\<forall>t. node \<noteq> TermQ t) \<longrightarrow> ranges (FieldExp_group field node) = ranges node)
   \<and> Parse ''F:([1 TO 2])'' =
       Inr (RangeQ \<lparr>rq_Min = VInt 1, rq_Max = VInt 2, rq_Term = [], rq_Inclusive = True\<rparr>)
   \<and> fst (ToSQL (StrQ ''F:([1 TO 2])'') (test_options ''id'' 0)) =
       (\<lparr>q_Query = ''id BETWEEN ? and ?'', q_Args = [VInt 1, VInt 2], q_Columns = []\<rparr>, None)
   \<and> snd (fst (ToSQL (StrQ ''F:([1 TO 2])'') (test_options [] 0))) =
       Some (ErrInvalidRangeTerm
         \<lparr>rq_Min = VInt 1, rq_Max = VInt 2, rq_Term = [], rq_Inclusive = True\<rparr>)"
proof -
  have g: "(\<forall>t. node \<noteq> TermQ t) \<longrightarrow> ranges (FieldExp_group field node) = ranges node"
    by (cases node) (simp_all add: FieldExp_group_def ranges_updateFieldName
        del: updateFieldName.simps)
  have p: "Parse ''F:([1 TO 2])'' =
       Inr (RangeQ \<lparr>rq_Min = VInt 1, rq_Max = VInt 2, rq_Term = [], rq_Inclusive = True\<rparr>)"
    by (simp add: parse_simps)
  have c: "cleanExpr ''id BETWEEN ? and ?'' = ''id BETWEEN ? and ?''"
    by (simp add: regex_simps)
  have t1: "fst (ToSQL (StrQ ''F:([1 TO 2])'') (test_options ''id'' 0)) =
       (\<lparr>q_Query = ''id BETWEEN ? and ?'', q_Args = [VInt 1, VInt 2], q_Columns = []\<rparr>, None)"
    by (simp add: ToSQL_def test_options_def p render_simps c)
  have t2: "snd (fst (ToSQL (StrQ ''F:([1 TO 2])'') (test_options [] 0))) =
       Some (ErrInvalidRangeTerm
         \<lparr>rq_Min = VInt 1, rq_Max = VInt 2, rq_Term = [], rq_Inclusive = True\<rparr>)"
    by (simp add: ToSQL_def test_options_def p render_simps)
  from ranges_updateFieldName g p t1 t2 show ?thesis by blast
qed

theorem propagation_keeps_ranges_witness:
  "(\<forall>t. BoolQ ''OR'' [RangeQ \<lparr>rq_Min = VInt 1, rq_Max = VInt 2, rq_Term = [],
                              rq_Inclusive = True\<rparr>,
                     TermQ \<lparr>tq_Term = [], tq_Prefix = [], tq_Op = [], tq_Value = VInt 3\<rparr>]
        \<noteq> TermQ t)
   \<and> ranges (FieldExp_group ''F''
        (BoolQ ''OR'' [RangeQ \<lparr>rq_Min = VInt 1, rq_Max = VInt 2, rq_Term = [],
                                rq_Inclusive = True\<rparr>,
                       TermQ \<lparr>tq_Term = [], tq_Prefix = [], tq_Op = [], tq_Value = VInt 3\<rparr>]))
      = [\<lparr>rq_Min = VInt 1, rq_Max = VInt 2, rq_Term = [], rq_Inclusive = True\<rparr>]"
proof -
  let ?n = "BoolQ ''OR'' [RangeQ \<lparr>rq_Min = VInt 1, rq_Max = VInt 2, rq_Term = [],
                              rq_Inclusive = True\<rparr>,
                     TermQ \<lparr>tq_Term = [], tq_Prefix = [], tq_Op = [], tq_Value = VInt 3\<rparr>]"
  have h: "\<forall>t. ?n \<noteq> TermQ t" by simp
  from propagation_keeps_ranges [of ?n "''F''"] h
  have "ranges (FieldExp_group ''F'' ?n) = ranges ?n" by blast
  with h show ?thesis by simp
qed

text \<open>
  C9. The group key of a sub-selection is not stripped of its spaces (and neither is the
  first segment of a \<open>Path\<close>), while \<open>Term\<close> strips its first segment: the quoted key
  \<open>"a b"\<close> of \<open>"a b"(c)\<close> keeps its space, the quoted term \<open>"a b"\<close> alone loses it.
\<close>

theorem group_key_keeps_spaces:
  "Masks ([CHR 0x22] @ ''a b'' @ [CHR 0x22] @ ''(c)'') = Inr [[''a b'', ''c'']]
   \<and> Masks ([CHR 0x22] @ ''a b'' @ [CHR 0x22]) = Inr [[''ab'']]"
  by (simp add: mask_simps parse_simps)

section \<open>Comparisons and ranges\<close>

text \<open>
  The inputs the comparison of \<open>f: > V\<close> with \<open>f: {V TO *}\<close> is made for. A field name is
  \<open>unquoted\<close>: one or more characters of \<open>TermChar\<close>, here ASCII ones. A value is an integer
  literal \<open>'-'? [0-9]+\<close> that \<open>strconv.Atoi\<close> converts without an error, or a plain term: an
  unquoted term that begins with no digit and with none of \<open>null\<close>, \<open>true\<close> and \<open>false\<close>.
  \<open>scalar V\<close> is the value such a text stands for: the integer, or the text itself.
\<close>

definition ascii :: "string \<Rightarrow> bool" where
  "ascii s = list_all (\<lambda>c. byte c < 128) s"

definition unquoted :: "string \<Rightarrow> bool" where
  "unquoted t = (t \<noteq> [] \<and> list_all TermChar t \<and> ascii t)"

definition int_literal :: "string \<Rightarrow> bool" where
  "int_literal V =
     (let ds = (case lit ''-'' V of Some r \<Rightarrow> r | None \<Rightarrow> V) in
      ds \<noteq> [] \<and> list_all is_digit ds \<and> snd (Atoi V))"

definition plain_term :: "string \<Rightarrow> bool" where
  "plain_term V = (unquoted V \<and> \<not> is_digit (hd V) \<and> Null V = None \<and> BoolExp V = None)"

definition scalar :: "string \<Rightarrow> val" where
  "scalar V = (if int_literal V then VInt (fst (Atoi V)) else VStr V)"

subsection \<open>A query that is one field expression\<close>

lemma ascii_well_formed: "ascii s \<Longrightarrow> \<not> ill_formed_upto n s"
  by (induction n s rule: ill_formed_upto.induct) (auto simp: ascii_def Let_def)

lemma int_literal_ascii: "int_literal V \<Longrightarrow> ascii V"
  by (cases V)
     (auto simp: int_literal_def ascii_def Let_def list_all_iff byte_def is_digit_def
       split: if_splits)

lemma fuel_length: "fuel s = 6 + 5 * length s"
  by (induction s) simp_all

lemma fuel_Suc: "s \<noteq> [] \<Longrightarrow> \<exists>k. fuel s = Suc (Suc (Suc (Suc (Suc (Suc (Suc (Suc (Suc (Suc k)))))))))"
  by (cases s) (auto simp: fuel_length intro: exI [of _ "Suc (5 * length (tl s))"])

lemma NodePlus_Nil: "NodePlus (Suc (Suc (Suc (Suc (Suc n))))) [] = NoMatch []"
  by (simp add: parse_simps)

lemma NodeStar_Nil: "NodeStar (Suc (Suc (Suc (Suc (Suc n))))) [] = Match [] [] []"
  by (simp add: parse_simps)

lemma Parse_single:
  assumes ws: "skip_ws s = s" and op: "OperatorExp s = None"
    and fe: "\<And>n. FieldExp (Suc (Suc n)) s = Match v [] []"
    and a: "ascii s" and ne: "s \<noteq> []"
  shows "Parse s = Inr v"
proof -
  from fuel_Suc [OF ne] obtain k where k: "fuel s = Suc (Suc (Suc (Suc (Suc (Suc (Suc (Suc (Suc (Suc k)))))))))" ..
  have e: "OperatorExp [] = None" by (simp add: parse_simps)
  have w: "skip_ws [] = []" by (simp add: skip_ws_def)
  have g: "GroupExp (Suc (Suc (Suc n))) s = Match v [] []" for n
    by (simp add: fe w del: FieldExp.simps)
  have n: "Node (Suc (Suc (Suc (Suc (Suc (Suc n)))))) s = Match v [] []" for n
    by (simp add: g op e NodePlus_Nil of_opt_def del: GroupExp.simps NodePlus.simps)
  have p: "NodePlus (Suc (Suc (Suc (Suc (Suc (Suc (Suc n))))))) s = Match [v] [] []" for n
    by (simp add: n NodeStar_Nil del: Node.simps NodeStar.simps)
  show ?thesis
    by (simp add: Parse_def Start_def k ws p toFlatSlice_def
        ascii_well_formed [OF a] del: NodePlus.simps)
qed

lemma TermChar_not_ws: "TermChar c \<Longrightarrow> \<not> is_ws c"
  by (auto simp: TermChar_def is_ws_def)

lemma unquoted_Cons: "unquoted t \<Longrightarrow> \<exists>c r. t = c # r \<and> TermChar c \<and> list_all TermChar r"
  by (cases t) (auto simp: unquoted_def)

lemma skip_ws_unquoted: "unquoted t \<Longrightarrow> skip_ws (t @ r) = t @ r"
  by (auto simp: skip_ws_def dest!: unquoted_Cons TermChar_not_ws)

lemma takeWhile_all: "list_all P t \<Longrightarrow> r = [] \<or> \<not> P (hd r) \<Longrightarrow> takeWhile P (t @ r) = t"
  by (cases r) (simp_all add: list_all_iff)

lemma dropWhile_all: "list_all P t \<Longrightarrow> r = [] \<or> \<not> P (hd r) \<Longrightarrow> dropWhile P (t @ r) = r"
  by (cases r) (simp_all add: list_all_iff)

lemma UnquotedTerm_unquoted:
  "unquoted t \<Longrightarrow> r = [] \<or> \<not> TermChar (hd r) \<Longrightarrow> UnquotedTerm (t @ r) = Some (t, r)"
  by (simp add: UnquotedTerm_def Let_def takeWhile_all dropWhile_all unquoted_def)

lemma Fieldname_unquoted: "unquoted f \<Longrightarrow> Fieldname (f @ CHR '':'' # r) = Match f r []"
  by (simp add: Fieldname_def UQTerm_def UnquotedTerm_unquoted TermChar_def of_lit_def)

lemma lit_in_field:
  "lit p (f @ CHR '':'' # r) = Some r' \<Longrightarrow> list_all TermChar p \<Longrightarrow> list_all TermChar f \<Longrightarrow>
     r' \<noteq> [] \<and> \<not> is_ws (hd r')"
proof (induction p arbitrary: f)
  case Nil
  then show ?case by (cases f) (auto simp: is_ws_def dest: TermChar_not_ws)
next
  case (Cons a ps)
  show ?case
  proof (cases f)
    case Nil
    with Cons.prems show ?thesis by (auto simp: TermChar_def split: if_splits)
  next
    case (Cons c f')
    with Cons.prems Cons.IH [of f'] show ?thesis by (auto split: if_splits)
  qed
qed

lemma choice_lit_Some:
  "choice_lit alts s = Some (v, r) \<Longrightarrow> \<exists>p \<in> set (map fst alts). lit p s = Some r"
  by (induction alts) (auto split: option.splits)

lemma OperatorExp_field: "unquoted f \<Longrightarrow> OperatorExp (f @ CHR '':'' # r) = None"
proof -
  assume u: "unquoted f"
  have "ws1 r' = None \<and> r' \<noteq> []" if "Operator (f @ CHR '':'' # r) = Some (op, r')" for op r'
  proof -
    from that have "\<exists>p \<in> set (map fst [(''OR'', ''OR''), (''AND'', ''AND''), (''NOT'', ''NOT''),
        (''||'', ''OR''), (''&&'', ''AND''), (''and'', ''AND''), (''or'', ''OR''), (''not'', ''NOT'')]).
        lit p (f @ CHR '':'' # r) = Some r'"
      unfolding Operator_def by (rule choice_lit_Some)
    then obtain p where p: "p \<in> set (map fst [(''OR'', ''OR''), (''AND'', ''AND''), (''NOT'', ''NOT''),
        (''||'', ''OR''), (''&&'', ''AND''), (''and'', ''AND''), (''or'', ''OR''), (''not'', ''NOT'')])"
      and l: "lit p (f @ CHR '':'' # r) = Some r'"
      by blast
    from p have "list_all TermChar p" by (auto simp: TermChar_def)
    from lit_in_field [OF l this] u show ?thesis
      by (cases r') (auto simp: unquoted_def ws1_def)
  qed
  then show ?thesis
    by (auto simp: OperatorExp_def skip_ws_unquoted [OF u] split: option.splits)
qed

lemma add_errs_Nil: "add_errs [] p = p"
  by (cases p) simp_all

lemma FieldExp_named:
  "unquoted f \<Longrightarrow> FieldExp (Suc (Suc n)) (f @ CHR '':'' # r) =
     orelse
       (seq (ArrayExp (skip_ws r)) (\<lambda>arr r.
          Match (TermQ \<lparr>tq_Term = f, tq_Prefix = [], tq_Op = ''in'', tq_Value = VSlice arr\<rparr>) r []))
    (orelse
       (seq (RangeOperatorExp (skip_ws r)) (\<lambda>rangeValue r.
          Match (RangeQ (rangeValue\<lparr>rq_Term := f\<rparr>)) r []))
    (orelse
       (seq (ParenExp (Suc n) (skip_ws r)) (\<lambda>node r. Match (FieldExp_group f node) r []))
       (seq (Term (skip_ws r)) (\<lambda>t r. Match (tq_Query (t\<lparr>tq_Term := f\<rparr>)) r []))))"
  by (simp add: Fieldname_unquoted toIfaceStr_def add_errs_Nil del: ParenExp.simps
      cong del: orelse_cong seq_cong)

subsection \<open>The value of a comparison or of a range bound\<close>

lemma is_digit_TermChar: "is_digit c \<Longrightarrow> TermChar c"
  by (auto simp: is_digit_def TermChar_def byte_def)

lemma int_literal_cases:
  assumes "int_literal V"
  obtains d ds where "is_digit d" "list_all is_digit ds" "V = d # ds \<or> V = CHR ''-'' # d # ds"
proof -
  let ?ds = "case lit ''-'' V of Some r \<Rightarrow> r | None \<Rightarrow> V"
  from assms have ne: "?ds \<noteq> []" and all: "list_all is_digit ?ds"
    by (simp_all add: int_literal_def Let_def)
  then obtain d ds where ds: "?ds = d # ds" by (cases ?ds) auto
  with all have "is_digit d" "list_all is_digit ds" by simp_all
  moreover from ds have "V = d # ds \<or> V = CHR ''-'' # d # ds"
    by (cases V) (auto split: if_splits)
  ultimately show thesis by (rule that)
qed

lemma Atoi_ok: "int_literal V \<Longrightarrow> snd (Atoi V)"
  by (simp add: int_literal_def Let_def)

lemma plain_term_Cons:
  assumes "plain_term V"
  obtains c cs where "V = c # cs" "TermChar c" "\<not> is_digit c" "list_all TermChar cs"
  using assms by (cases V) (auto simp: plain_term_def unquoted_def)

lemma plain_not_int: "plain_term V \<Longrightarrow> \<not> int_literal V"
  by (erule plain_term_Cons) (auto simp: int_literal_def Let_def TermChar_def)

lemma scalar_int: "int_literal V \<Longrightarrow> scalar V = VInt (fst (Atoi V))"
  by (simp add: scalar_def)

lemma scalar_plain: "plain_term V \<Longrightarrow> scalar V = VStr V"
  by (simp add: scalar_def plain_not_int)

lemma skip_ws_Cons: "skip_ws (c # r) = (if is_ws c then skip_ws r else c # r)"
  by (simp add: skip_ws_def)

lemma skip_ws_literal: "int_literal V \<or> plain_term V \<Longrightarrow> skip_ws (V @ r) = V @ r"
proof (erule disjE)
  assume "int_literal V"
  then show ?thesis
    by (rule int_literal_cases) (auto simp: skip_ws_Cons is_ws_def is_digit_def byte_def)
next
  assume "plain_term V"
  then show ?thesis
    by (rule plain_term_Cons) (auto simp: skip_ws_Cons dest: TermChar_not_ws)
qed

lemma skip_ws_literal0: "int_literal V \<or> plain_term V \<Longrightarrow> skip_ws V = V"
  using skip_ws_literal [of V "[]"] by simp

lemma DecimalOrIntExp_int:
  assumes i: "int_literal V" and r: "r = [] \<or> \<not> TermChar (hd r)"
  shows "DecimalOrIntExp (V @ r) = Match (VInt (fst (Atoi V))) r []"
proof -
  from r have d: "r = [] \<or> \<not> is_digit (hd r)" by (auto dest: is_digit_TermChar)
  from r have dot: "lit ''.'' r = None" by (cases r) (auto simp: TermChar_def)
  from i obtain d ds where dd: "is_digit d" "list_all is_digit ds"
    and V: "V = d # ds \<or> V = CHR ''-'' # d # ds"
    by (rule int_literal_cases)
  from dd have all: "list_all is_digit (d # ds)" by simp
  from dd have m: "d \<noteq> CHR ''-''" "CHR ''-'' \<noteq> d" by (auto simp: is_digit_def byte_def)
  have tw: "takeWhile is_digit (d # ds @ r) = d # ds" using takeWhile_all [OF all d] by simp
  have dw: "dropWhile is_digit (d # ds @ r) = r" using dropWhile_all [OF all d] by simp
  from V show ?thesis
  proof
    assume v: "V = d # ds"
    have "DecimalExp (d # ds @ r) = NoMatch []"
      using tw dw by (simp add: DecimalExp_def Let_def m dot del: takeWhile.simps dropWhile.simps)
    moreover have "IntExp (d # ds @ r) = Match (VInt (fst (Atoi V))) r []"
      using tw dw Atoi_ok [OF i]
      by (simp add: IntExp_def Let_def m v case_prod_unfold del: takeWhile.simps dropWhile.simps)
    ultimately show ?thesis by (simp add: DecimalOrIntExp_def v)
  next
    assume v: "V = CHR ''-'' # d # ds"
    have "DecimalExp (CHR ''-'' # d # ds @ r) = NoMatch []"
      using tw dw by (simp add: DecimalExp_def Let_def dot del: takeWhile.simps dropWhile.simps)
    moreover have "IntExp (CHR ''-'' # d # ds @ r) = Match (VInt (fst (Atoi V))) r []"
      using tw dw Atoi_ok [OF i]
      by (simp add: IntExp_def Let_def v case_prod_unfold del: takeWhile.simps dropWhile.simps)
    ultimately show ?thesis by (simp add: DecimalOrIntExp_def v)
  qed
qed

lemma DecimalOrIntExp_plain: "plain_term V \<Longrightarrow> DecimalOrIntExp (V @ r) = NoMatch []"
  by (erule plain_term_Cons)
     (auto simp: DecimalOrIntExp_def DecimalExp_def IntExp_def Let_def TermChar_def)

lemma RangeBound_literal:
  assumes v: "int_literal V \<or> plain_term V" and r: "r = [] \<or> \<not> TermChar (hd r)"
  shows "RangeBound (V @ r) = Match (scalar V) r []"
  using v
proof
  assume "int_literal V"
  then show ?thesis
    by (simp add: RangeBound_def DecimalOrIntExp_int [OF _ r] scalar_int)
next
  assume p: "plain_term V"
  then have u: "unquoted V" by (simp add: plain_term_def)
  from p have w: "WildCardChar (V @ r) = None"
    by (rule plain_term_Cons) (auto simp: WildCardChar_def TermChar_def)
  show ?thesis
    by (simp add: RangeBound_def DecimalOrIntExp_plain [OF p] w of_lit_def of_opt_def
        UnquotedTerm_unquoted [OF u r] scalar_plain [OF p])
qed

lemma lit_append_None: "lit p V = None \<Longrightarrow> c \<notin> set p \<Longrightarrow> lit p (V @ c # r) = None"
  by (induction p V rule: lit.induct) (auto split: if_splits)

lemma Null_BoolExp_literal:
  assumes v: "int_literal V \<or> plain_term V" and c: "c = CHR '' ''"
  shows "Null (V @ c # r) = None \<and> BoolExp (V @ c # r) = None"
  using v
proof
  assume "int_literal V"
  then show ?thesis
    by (rule int_literal_cases) (auto simp: Null_def BoolExp_def is_digit_def byte_def)
next
  assume "plain_term V"
  then have "lit ''null'' V = None" "lit ''true'' V = None" "lit ''false'' V = None"
    by (auto simp: plain_term_def Null_def BoolExp_def split: option.splits)
  then show ?thesis
    by (simp add: Null_def BoolExp_def lit_append_None c)
qed

lemma QuotedTerm_literal: "int_literal V \<or> plain_term V \<Longrightarrow> QuotedTerm (V @ r) = NoMatch []"
proof (erule disjE)
  assume "int_literal V"
  then show ?thesis
    by (rule int_literal_cases) (auto simp: QuotedTerm_def is_digit_def byte_def)
next
  assume "plain_term V"
  then show ?thesis
    by (rule plain_term_Cons) (auto simp: QuotedTerm_def TermChar_def)
qed

lemma ArrayValue_literal:
  assumes v: "int_literal V \<or> plain_term V"
  shows "\<exists>x. ArrayValue (V @ CHR '' '' # r) = Match x (skip_ws r) []"
proof -
  note nb = Null_BoolExp_literal [OF v refl, of r]
  have t: "\<not> TermChar (hd (CHR '' '' # r))" by (simp add: TermChar_def)
  from v show ?thesis
  proof
    assume i: "int_literal V"
    show ?thesis
      using DecimalOrIntExp_int [OF i, of "CHR '' '' # r"] nb
      by (simp add: ArrayValue_def of_opt_def TermChar_def skip_ws_Cons is_ws_def)
  next
    assume p: "plain_term V"
    then have u: "unquoted V" by (simp add: plain_term_def)
    show ?thesis
      using DecimalOrIntExp_plain [OF p, of "CHR '' '' # r"] nb QuotedTerm_literal [OF v]
        UnquotedTerm_unquoted [OF u, of "CHR '' '' # r"]
      by (simp add: ArrayValue_def of_opt_def TermChar_def skip_ws_Cons is_ws_def)
  qed
qed

lemma ArrayExp_range:
  assumes v: "int_literal V \<or> plain_term V"
  shows "ArrayExp (CHR ''['' # V @ '' TO *]'') = NoMatch []"
proof -
  from ArrayValue_literal [OF v, of "''TO *]''"]
  obtain x where x: "ArrayValue (V @ '' TO *]'') = Match x ''TO *]'' []"
    by (auto simp: skip_ws_Cons is_ws_def)
  have a: "ArrayRest ''TO *]'' = Match [] ''TO *]'' []"
    by (simp add: ArrayRest.simps)
  show ?thesis
    by (simp add: ArrayExp_def of_lit_def skip_ws_literal [OF v] x a skip_ws_Cons is_ws_def)
qed

lemma Term_literal:
  assumes v: "int_literal V \<or> plain_term V" and e: "EqualityExpr s = Some (eq, V)"
  shows "Term s = Match \<lparr>tq_Term = [], tq_Prefix = [], tq_Op = eq, tq_Value = scalar V\<rparr> [] []"
  using v
proof
  assume i: "int_literal V"
  show ?thesis
    using DecimalOrIntExp_int [OF i, of "[]"]
    by (simp add: Term_def e of_opt_def toIfaceStr_def scalar_int [OF i] skip_ws_def)
next
  assume p: "plain_term V"
  then have u: "unquoted V" by (simp add: plain_term_def)
  from p have nb: "Null V = None" "BoolExp V = None" by (simp_all add: plain_term_def)
  from p obtain c cs where V: "V = c # cs" and tc: "TermChar c" by (rule plain_term_Cons)
  from tc have "c \<noteq> CHR ''*''" "c \<noteq> CHR ''+''" "c \<noteq> CHR ''-''" "\<not> is_ws c"
    by (auto simp: TermChar_def is_ws_def)
  then have w: "WildCardChar V = None" "PrefixOperatorExp V = None"
    by (simp_all add: V WildCardChar_def PrefixOperatorExp_def skip_ws_Cons)
  have ut: "UnquotedTerm V = Some (V, [])" using UnquotedTerm_unquoted [OF u, of "[]"] by simp
  have w0: "WildCardChar [] = None" by (simp add: WildCardChar_def)
  have wc: "WildCardExp V = NoMatch []"
    by (simp add: WildCardExp_def UQTerm_def ut w w0 of_lit_def)
  show ?thesis
    using DecimalOrIntExp_plain [OF p, of "[]"] QuotedTerm_literal [OF v, of "[]"]
    by (simp add: Term_def e of_opt_def toIfaceStr_def scalar_plain [OF p] skip_ws_def nb w wc ut)
qed

subsection \<open>The three ways of writing a comparison\<close>

lemma literal_ascii: "int_literal V \<or> plain_term V \<Longrightarrow> ascii V"
  by (auto simp: int_literal_ascii plain_term_def unquoted_def)

lemma term_form:
  assumes u: "unquoted f" and v: "int_literal V \<or> plain_term V"
    and e: "EqualityExpr (c # b) = Some (eq, V)"
    and c: "c \<in> set ''><gl''" and a: "ascii b"
  shows "Parse (f @ CHR '':'' # CHR '' '' # c # b) =
    Inr (tq_Query \<lparr>tq_Term = f, tq_Prefix = [], tq_Op = eq, tq_Value = scalar V\<rparr>)"
proof (rule Parse_single)
  show "skip_ws (f @ CHR '':'' # CHR '' '' # c # b) = f @ CHR '':'' # CHR '' '' # c # b"
    by (rule skip_ws_unquoted [OF u])
  show "OperatorExp (f @ CHR '':'' # CHR '' '' # c # b) = None"
    by (rule OperatorExp_field [OF u])
  from u c a show "ascii (f @ CHR '':'' # CHR '' '' # c # b)"
    by (auto simp: ascii_def unquoted_def byte_def)
  show "f @ CHR '':'' # CHR '' '' # c # b \<noteq> []" by simp
next
  fix n
  from c have w: "skip_ws (CHR '' '' # c # b) = c # b"
    by (auto simp: skip_ws_Cons is_ws_def)
  from c have ae: "ArrayExp (c # b) = NoMatch []"
    by (auto simp: ArrayExp_def of_lit_def)
  from c have re: "RangeOperatorExp (c # b) = NoMatch []"
    by (auto simp: RangeOperatorExp_def of_lit_def)
  from c have pe: "ParenExp (Suc n) (c # b) = NoMatch []"
    by (auto simp: of_lit_def)
  show "FieldExp (Suc (Suc n)) (f @ CHR '':'' # CHR '' '' # c # b) =
    Match (tq_Query \<lparr>tq_Term = f, tq_Prefix = [], tq_Op = eq, tq_Value = scalar V\<rparr>) [] []"
    by (simp add: FieldExp_named [OF u] w ae re pe Term_literal [OF v e] del: ParenExp.simps FieldExp.simps)
qed

lemma range_form:
  assumes u: "unquoted f"
    and ae: "ArrayExp (c # b) = NoMatch []"
    and re: "RangeOperatorExp (c # b) = Match rq [] []"
    and c: "c \<in> set ''[{''" and a: "ascii b"
  shows "Parse (f @ CHR '':'' # CHR '' '' # c # b) = Inr (RangeQ (rq\<lparr>rq_Term := f\<rparr>))"
proof (rule Parse_single)
  show "skip_ws (f @ CHR '':'' # CHR '' '' # c # b) = f @ CHR '':'' # CHR '' '' # c # b"
    by (rule skip_ws_unquoted [OF u])
  show "OperatorExp (f @ CHR '':'' # CHR '' '' # c # b) = None"
    by (rule OperatorExp_field [OF u])
  from u c a show "ascii (f @ CHR '':'' # CHR '' '' # c # b)"
    by (auto simp: ascii_def unquoted_def byte_def)
  show "f @ CHR '':'' # CHR '' '' # c # b \<noteq> []" by simp
next
  fix n
  from c have w: "skip_ws (CHR '' '' # c # b) = c # b"
    by (auto simp: skip_ws_Cons is_ws_def)
  show "FieldExp (Suc (Suc n)) (f @ CHR '':'' # CHR '' '' # c # b) =
    Match (RangeQ (rq\<lparr>rq_Term := f\<rparr>)) [] []"
    by (simp add: FieldExp_named [OF u] w ae re del: ParenExp.simps FieldExp.simps)
qed

lemma RangeBound_star: "RangeBound (CHR ''*'' # r) = Match (VStr ''*'') r []"
  by (simp add: RangeBound_def DecimalOrIntExp_def DecimalExp_def IntExp_def is_digit_def byte_def
      of_lit_def WildCardChar_def)

lemma range_min:
  assumes v: "int_literal V \<or> plain_term V"
  shows "RangeOperatorExp (CHR ''{'' # V @ '' TO *}'') =
      Match \<lparr>rq_Min = scalar V, rq_Max = VStr ''*'', rq_Term = [], rq_Inclusive = False\<rparr> [] []"
    and "RangeOperatorExp (CHR ''['' # V @ '' TO *]'') =
      Match \<lparr>rq_Min = scalar V, rq_Max = VStr ''*'', rq_Term = [], rq_Inclusive = True\<rparr> [] []"
  using RangeBound_literal [OF v, of "'' TO *}''"] RangeBound_literal [OF v, of "'' TO *]''"]
  by (simp_all add: RangeOperatorExp_def of_lit_def TermChar_def RangeBound_star skip_ws_Cons
      is_ws_def ws1_def skip_ws_literal [OF v])

lemma range_max:
  assumes v: "int_literal V \<or> plain_term V"
  shows "RangeOperatorExp (''{* TO '' @ V @ ''}'') =
      Match \<lparr>rq_Min = VStr ''*'', rq_Max = scalar V, rq_Term = [], rq_Inclusive = False\<rparr> [] []"
    and "RangeOperatorExp (''[* TO '' @ V @ '']'') =
      Match \<lparr>rq_Min = VStr ''*'', rq_Max = scalar V, rq_Term = [], rq_Inclusive = True\<rparr> [] []"
  using RangeBound_literal [OF v, of "''}''"] RangeBound_literal [OF v, of "'']''"]
  by (simp_all add: RangeOperatorExp_def of_lit_def TermChar_def RangeBound_star skip_ws_Cons
      is_ws_def ws1_def skip_ws_literal [OF v])

lemma ArrayExp_star: "ArrayExp (CHR ''['' # CHR ''*'' # r) = NoMatch []"
  by (simp add: ArrayExp_def of_lit_def skip_ws_Cons is_ws_def ArrayValue_def Null_def BoolExp_def
      of_opt_def DecimalOrIntExp_def DecimalExp_def IntExp_def is_digit_def byte_def
      QuotedTerm_def UnquotedTerm_def TermChar_def)

lemma ArrayExp_brace: "ArrayExp (CHR ''{'' # r) = NoMatch []"
  by (simp add: ArrayExp_def of_lit_def)




end
